theory Spec2Isabelle
  imports Complex_Main
begin

section \<open>Configuration constants of \<^verbatim>\<open>src/main.py\<close>\<close>

definition WIDTH :: int where "WIDTH = 960"
definition HEIGHT :: int where "HEIGHT = 540"

definition PIPE_WIDTH :: int where "PIPE_WIDTH = 120"
definition PIPE_GAP_BASE :: int where "PIPE_GAP_BASE = 220"
definition PIPE_BASE_SPEED :: real where "PIPE_BASE_SPEED = 4.0"
definition PIPE_SPAWN_BASE_MS :: int where "PIPE_SPAWN_BASE_MS = 1500"

definition PLAYER_SPEED :: real where "PLAYER_SPEED = 4.5"
definition PLAYER_MARGIN_TOP_BOTTOM :: int where "PLAYER_MARGIN_TOP_BOTTOM = 20"
definition INITIAL_LIVES :: int where "INITIAL_LIVES = 3"

definition ICEBERG_HITBOX_SCALE_X :: real where "ICEBERG_HITBOX_SCALE_X = 0.01"
definition PLAYER_HITBOX_SHRINK :: real where "PLAYER_HITBOX_SHRINK = 0.2"

definition MEM_SHOW_MS :: int where "MEM_SHOW_MS = 650"
definition MEM_GAP_MS :: int where "MEM_GAP_MS = 350"
definition MEM_DEBOUNCE_MS :: int where "MEM_DEBOUNCE_MS = 200"

section \<open>Python numbers\<close>

text \<open>
  Python's \<^verbatim>\<open>int\<close> is unbounded and is modelled by \<^typ>\<open>int\<close>; \<^verbatim>\<open>//\<close> on it is floor
  division, which is \<open>div\<close> on \<^typ>\<open>int\<close>.  Python's \<^verbatim>\<open>float\<close> is modelled by \<^typ>\<open>real\<close>:
  the arithmetic is exact, without the rounding of IEEE doubles.  The conversions the
  program applies to floats are written out below.  Where a double product is rounded
  onto a tie that the exact product misses, \<^verbatim>\<open>round\<close> can differ by one from the value
  here; no statement below depends on which of the two neighbouring pixels a step
  reaches.
\<close>

definition py_int :: "real \<Rightarrow> int" where
  \<comment> \<open>\<^verbatim>\<open>int(v)\<close> of a float: truncation towards zero.\<close>
  "py_int v = (if 0 \<le> v then \<lfloor>v\<rfloor> else \<lceil>v\<rceil>)"

definition py_round :: "real \<Rightarrow> int" where
  \<comment> \<open>\<^verbatim>\<open>round(v)\<close> of a float: to the nearest integer, a tie to the even one.\<close>
  "py_round v =
     (let f = \<lfloor>v\<rfloor>; d = v - of_int f
      in if d < 1 / 2 then f else if 1 / 2 < d then f + 1 else if even f then f else f + 1)"

definition c_div2 :: "int \<Rightarrow> int" where
  \<comment> \<open>\<^verbatim>\<open>v / 2\<close> on a C \<^verbatim>\<open>int\<close>, as pygame's rect code computes it: truncation towards zero.\<close>
  "c_div2 v = (if 0 \<le> v then v div 2 else - ((- v) div 2))"





section \<open>\<^verbatim>\<open>pygame.Rect\<close>\<close>

text \<open>
  A rectangle with integer left edge, top edge, width and height.  The operations are
  those of pygame 2 that the program calls: the \<^verbatim>\<open>top\<close> and \<^verbatim>\<open>bottom\<close> attributes and their
  setters, the \<^verbatim>\<open>centerx\<close> and \<^verbatim>\<open>centery\<close> setters, \<^verbatim>\<open>inflate\<close>, \<^verbatim>\<open>colliderect\<close> and the truth
  value of a rectangle.
\<close>

record Rect =
  rect_x :: int
  rect_y :: int
  rect_w :: int
  rect_h :: int

definition mk_rect :: "int \<Rightarrow> int \<Rightarrow> int \<Rightarrow> int \<Rightarrow> Rect" where
  "mk_rect a b c d = \<lparr>rect_x = a, rect_y = b, rect_w = c, rect_h = d\<rparr>"

definition rect_top :: "Rect \<Rightarrow> int" where
  "rect_top r = rect_y r"

definition rect_bottom :: "Rect \<Rightarrow> int" where
  "rect_bottom r = rect_y r + rect_h r"

definition rect_left :: "Rect \<Rightarrow> int" where
  "rect_left r = rect_x r"

definition rect_right :: "Rect \<Rightarrow> int" where
  "rect_right r = rect_x r + rect_w r"

definition set_top :: "Rect \<Rightarrow> int \<Rightarrow> Rect" where
  "set_top r v = r\<lparr>rect_y := v\<rparr>"

definition set_bottom :: "Rect \<Rightarrow> int \<Rightarrow> Rect" where
  "set_bottom r v = r\<lparr>rect_y := v - rect_h r\<rparr>"

definition set_centerx :: "Rect \<Rightarrow> int \<Rightarrow> Rect" where
  \<comment> \<open>\<^verbatim>\<open>r.centerx = v\<close>: the left edge is \<open>v\<close> less half the width.  Every rectangle the
      program centres has a non-negative size, where halving by shift and by division
      agree.\<close>
  "set_centerx r v = r\<lparr>rect_x := v - rect_w r div 2\<rparr>"

definition set_centery :: "Rect \<Rightarrow> int \<Rightarrow> Rect" where
  "set_centery r v = r\<lparr>rect_y := v - rect_h r div 2\<rparr>"

definition inflate :: "Rect \<Rightarrow> int \<Rightarrow> int \<Rightarrow> Rect" where
  \<comment> \<open>\<^verbatim>\<open>r.inflate(dx, dy)\<close>: a new rectangle, grown by \<open>dx\<close> and \<open>dy\<close> around the centre.\<close>
  "inflate r dx dy =
     mk_rect (rect_x r - c_div2 dx) (rect_y r - c_div2 dy) (rect_w r + dx) (rect_h r + dy)"

definition colliderect :: "Rect \<Rightarrow> Rect \<Rightarrow> bool" where
  \<comment> \<open>\<^verbatim>\<open>a.colliderect(b)\<close>: a rectangle of zero width or height collides with nothing.\<close>
  "colliderect a b =
     (if rect_w a = 0 \<or> rect_h a = 0 \<or> rect_w b = 0 \<or> rect_h b = 0 then False
      else min (rect_x a) (rect_x a + rect_w a) < max (rect_x b) (rect_x b + rect_w b)
         \<and> min (rect_y a) (rect_y a + rect_h a) < max (rect_y b) (rect_y b + rect_h b)
         \<and> max (rect_x a) (rect_x a + rect_w a) > min (rect_x b) (rect_x b + rect_w b)
         \<and> max (rect_y a) (rect_y a + rect_h a) > min (rect_y b) (rect_y b + rect_h b))"

definition rect_truth :: "Rect \<Rightarrow> bool" where
  \<comment> \<open>\<^verbatim>\<open>bool(r)\<close>: false for a rectangle of zero width or height.\<close>
  "rect_truth r = (rect_w r \<noteq> 0 \<and> rect_h r \<noteq> 0)"



section \<open>The player\<close>

text \<open>
  \<^verbatim>\<open>class Player\<close>.  The \<^verbatim>\<open>image\<close> field is only drawn and is left out; its size is the
  size of \<^verbatim>\<open>rect\<close>.
\<close>

record Player =
  rect :: Rect

definition player_dy :: "bool \<Rightarrow> bool \<Rightarrow> real \<Rightarrow> real" where
  \<comment> \<open>The local \<^verbatim>\<open>dy\<close> of \<^verbatim>\<open>Player.update\<close> before it is rounded.\<close>
  "player_dy move_up move_down dt =
     (let dy0 = 0;
          dy1 = (if move_up then dy0 - PLAYER_SPEED * dt else dy0);
          dy2 = (if move_down then dy1 + PLAYER_SPEED * dt else dy1)
      in dy2)"

definition Player_update :: "bool \<Rightarrow> bool \<Rightarrow> real \<Rightarrow> Player \<Rightarrow> Player" where
  \<comment> \<open>\<^verbatim>\<open>Player.update(self, move_up, move_down, dt)\<close> without the limits of 32-bit fields;
      it is the method itself for every \<open>dt\<close> of a tick (see \<open>Player_update_int32\<close>).\<close>
  "Player_update move_up move_down dt p =
     (let r0 = rect p;
          r1 = r0\<lparr>rect_y := rect_y r0 + py_round (player_dy move_up move_down dt)\<rparr>;
          r2 = (if rect_top r1 < PLAYER_MARGIN_TOP_BOTTOM
                then set_top r1 PLAYER_MARGIN_TOP_BOTTOM else r1);
          r3 = (if rect_bottom r2 > HEIGHT - PLAYER_MARGIN_TOP_BOTTOM
                then set_bottom r2 (HEIGHT - PLAYER_MARGIN_TOP_BOTTOM) else r2)
      in p\<lparr>rect := r3\<rparr>)"


definition collision_rect :: "Player \<Rightarrow> Rect" where
  \<comment> \<open>\<^verbatim>\<open>Player.collision_rect(self)\<close>.\<close>
  "collision_rect p =
     (let r = rect p;
          shrink_w = py_int (real_of_int (rect_w r) * PLAYER_HITBOX_SHRINK);
          shrink_h = py_int (real_of_int (rect_h r) * PLAYER_HITBOX_SHRINK)
      in inflate r (- shrink_w) (- shrink_h))"

type_synonym image_size = "int \<times> int"

definition create_player :: "image_size \<Rightarrow> Player" where
  \<comment> \<open>\<^verbatim>\<open>create_player(ship_image)\<close>; the argument is the width and height of the ship
      image (both positive for an image loaded from a file).\<close>
  "create_player ship_image =
     (let target_h = 64;
          aspect = real_of_int (fst ship_image) / real_of_int (snd ship_image);
          r0 = mk_rect 0 0 (py_int (real_of_int target_h * aspect)) target_h;
          r1 = set_centerx r0 (WIDTH div 4);
          r2 = set_centery r1 (HEIGHT div 2)
      in \<lparr>rect = r2\<rparr>)"

section \<open>Difficulty\<close>

definition compute_level :: "int \<Rightarrow> int" where
  \<comment> \<open>\<^verbatim>\<open>compute_level(score)\<close>.\<close>
  "compute_level sc = max 1 (min 10 (sc div 5 + 1))"

text \<open>
  The three difficulty parameters that the \<^verbatim>\<open>titanic_playing\<close> branch of \<^verbatim>\<open>main\<close> computes
  from \<^verbatim>\<open>level\<close> on each tick.  \<^verbatim>\<open>int(...)\<close> is applied to an \<^verbatim>\<open>int\<close> there and is the identity.
\<close>

definition titanic_gap :: "int \<Rightarrow> int" where
  "titanic_gap level = max 140 (PIPE_GAP_BASE - (level - 1) * 8)"

definition titanic_speed :: "int \<Rightarrow> real" where
  "titanic_speed level = PIPE_BASE_SPEED + real_of_int (level - 1) * 0.45"

definition titanic_spawn_interval_ms :: "int \<Rightarrow> int" where
  "titanic_spawn_interval_ms level = max 700 (PIPE_SPAWN_BASE_MS - (level - 1) * 80)"

section \<open>Iceberg pairs\<close>

text \<open>
  \<^verbatim>\<open>class IcebergPair\<close>; the field \<open>ib_f\<close> is the attribute \<^verbatim>\<open>f\<close> of the class.
\<close>

record IcebergPair =
  ib_x :: real
  ib_gap_y :: real
  ib_width :: int
  ib_gap :: int
  ib_passed :: bool
  ib_star_y :: "real option"
  ib_star_collected :: bool

definition rects :: "IcebergPair \<Rightarrow> Rect \<times> Rect" where
  \<comment> \<open>\<^verbatim>\<open>IcebergPair.rects(self)\<close>: the top and the bottom iceberg as drawn.\<close>
  "rects ib =
     (let top_height = py_int (ib_gap_y ib - real_of_int (ib_gap ib) / 2);
          bottom_y = py_int (ib_gap_y ib + real_of_int (ib_gap ib) / 2);
          bottom_height = HEIGHT - bottom_y;
          top_rect = mk_rect (py_int (ib_x ib)) 0 (ib_width ib) top_height;
          bottom_rect = mk_rect (py_int (ib_x ib)) bottom_y (ib_width ib) bottom_height
      in (top_rect, bottom_rect))"

definition shrink_x :: "Rect \<Rightarrow> Rect" where
  \<comment> \<open>The local function \<^verbatim>\<open>shrink_x\<close> of \<^verbatim>\<open>IcebergPair.collision_rects\<close>.\<close>
  "shrink_x r =
     (let new_w = py_int (real_of_int (rect_w r) * ICEBERG_HITBOX_SCALE_X)
      in if new_w \<le> 0 then r
         else (let shrink_total = rect_w r - new_w in inflate r (- shrink_total) 0))"

definition collision_rects :: "IcebergPair \<Rightarrow> Rect \<times> Rect" where
  \<comment> \<open>\<^verbatim>\<open>IcebergPair.collision_rects(self)\<close>.\<close>
  "collision_rects ib =
     (let (top_rect, bottom_rect) = rects ib in (shrink_x top_rect, shrink_x bottom_rect))"

definition IcebergPair_update :: "real \<Rightarrow> real \<Rightarrow> IcebergPair \<Rightarrow> IcebergPair" where
  \<comment> \<open>\<^verbatim>\<open>IcebergPair.update(self, speed, dt)\<close>.\<close>
  "IcebergPair_update speed dt ib = ib\<lparr>ib_x := ib_x ib - speed * dt\<rparr>"

definition is_off_screen :: "IcebergPair \<Rightarrow> bool" where
  "is_off_screen ib = (ib_x ib + real_of_int (ib_width ib) < - 10)"

definition STAR_SIZE :: image_size where
  \<comment> \<open>The size \<^verbatim>\<open>main\<close> loads the star image at: \<^verbatim>\<open>load_image(STAR_IMAGE_NAME, (32, 32))\<close>.\<close>
  "STAR_SIZE = (32, 32)"

definition star_rect :: "IcebergPair \<Rightarrow> Rect option" where
  \<comment> \<open>\<^verbatim>\<open>IcebergPair.star_rect(self, star_img)\<close>.\<close>
  "star_rect ib =
     (case ib_star_y ib of
        None \<Rightarrow> None
      | Some sy \<Rightarrow>
          if ib_star_collected ib then None
          else (let r0 = mk_rect 0 0 (fst STAR_SIZE) (snd STAR_SIZE);
                    r1 = set_centerx r0 (py_int (ib_x ib + real_of_int (ib_width ib) / 2));
                    r2 = set_centery r1 (py_int sy)
                in Some r2))"

definition create_iceberg_pair :: "int \<Rightarrow> int \<Rightarrow> real \<Rightarrow> IcebergPair" where
  \<comment> \<open>\<^verbatim>\<open>create_iceberg_pair(gap_y, gap, star_img)\<close>.  The last argument is the number in
      \<open>[0, 1)\<close> that \<^verbatim>\<open>random.uniform(a, b)\<close> draws and returns as \<open>a + (b - a) * u\<close>.\<close>
  "create_iceberg_pair gap_y gap u =
     (let star_margin = snd STAR_SIZE div 2 + 8;
          top_limit = real_of_int gap_y - real_of_int gap / 2 + real_of_int star_margin;
          bottom_limit = real_of_int gap_y + real_of_int gap / 2 - real_of_int star_margin;
          star_y = (if top_limit \<ge> bottom_limit then real_of_int gap_y
                    else top_limit + (bottom_limit - top_limit) * u)
      in \<lparr>ib_x = real_of_int (WIDTH + 40), ib_gap_y = real_of_int gap_y,
          ib_width = PIPE_WIDTH, ib_gap = gap, ib_passed = False,
          ib_star_y = Some star_y, ib_star_collected = False\<rparr>)"

section \<open>The state of the main loop\<close>

datatype game_state =
    mode_select
  | titanic_menu | titanic_playing | titanic_game_over
  | memory_ready | memory_show | memory_input | memory_success | memory_game_over

text \<open>
  The local variables of \<^verbatim>\<open>main\<close> that live across iterations of its loop, under their
  own names.  The variables that only drawing reads or writes (\<^verbatim>\<open>bg_x\<close>, fonts, images)
  are left out.  The arrows \<^verbatim>\<open>"U"\<close> and \<^verbatim>\<open>"D"\<close> are strings, as in the source.
\<close>

record Game =
  player :: Player
  icebergs :: "IcebergPair list"
  score :: int
  next_spawn :: real
  lives_left :: int
  mem_level :: int
  mem_best_level :: int
  mem_sequence :: "string list"
  mem_show_index :: int
  mem_showing_arrow :: bool
  mem_last_change :: int
  mem_player_inputs :: "string list"
  mem_last_input_time :: int
  mem_mismatch_positions :: "nat list"
  state :: game_state
  prev_move_up :: bool
  prev_move_down :: bool
  running :: bool

datatype key =
  K_ESCAPE | K_SPACE | K_RETURN | K_r | K_m | K_w | K_UP | K_s | K_DOWN | K_OTHER

datatype event = QUIT | KEYDOWN key | OTHER_EVENT

text \<open>
  What one iteration of the loop reads from outside: the milliseconds \<^verbatim>\<open>clock.tick(FPS)\<close>
  returns, the pygame event queue, the keys held (\<^verbatim>\<open>pygame.key.get_pressed()\<close>), the pair
  \<^verbatim>\<open>read_pico_flags\<close> returns, the clock \<^verbatim>\<open>pygame.time.get_ticks()\<close> (one reading for the whole
  iteration), and the random draws: \<^verbatim>\<open>random.randint(140, HEIGHT - 140)\<close>, the number in
  \<open>[0, 1)\<close> behind \<^verbatim>\<open>random.uniform\<close>, and for each \<open>i\<close> whether the \<open>i\<close>-th
  \<^verbatim>\<open>random.choice(["U", "D"])\<close> picks \<^verbatim>\<open>"U"\<close>.
\<close>

record Tick =
  dt_ms :: int
  events :: "event list"
  keys :: "key \<Rightarrow> bool"
  pico_up :: bool
  pico_down :: bool
  ticks :: int
  rand_gap_y :: int
  rand_unit :: real
  rand_choice :: "nat \<Rightarrow> bool"

section \<open>One iteration of the main loop\<close>

definition reset_titanic :: "image_size \<Rightarrow> int \<Rightarrow> Game \<Rightarrow> Game" where
  \<comment> \<open>\<^verbatim>\<open>reset_titanic(ship_image)\<close>, assigned to the five Titanic variables as every call
      site does; the second argument is the clock.\<close>
  "reset_titanic ship_image now g =
     g\<lparr>player := create_player ship_image, icebergs := [], score := 0,
       next_spawn := real_of_int (now + 1000), lives_left := INITIAL_LIVES\<rparr>"

definition reset_memory :: "Game \<Rightarrow> Game" where
  \<comment> \<open>The eight assignments that the \<^verbatim>\<open>mode_select\<close> branch and the restart of
      \<^verbatim>\<open>memory_game_over\<close> both make, before they set \<^verbatim>\<open>state\<close>.\<close>
  "reset_memory g =
     g\<lparr>mem_level := 1, mem_sequence := [], mem_show_index := 0, mem_showing_arrow := False,
       mem_last_change := 0, mem_player_inputs := [], mem_last_input_time := 0,
       mem_mismatch_positions := []\<rparr>"

definition is_restart_key :: "key \<Rightarrow> bool" where
  \<comment> \<open>\<^verbatim>\<open>event.key in (pygame.K_SPACE, pygame.K_RETURN, pygame.K_r)\<close>.\<close>
  "is_restart_key k = (k = K_SPACE \<or> k = K_RETURN \<or> k = K_r)"

definition handle_keydown :: "image_size \<Rightarrow> int \<Rightarrow> key \<Rightarrow> Game \<Rightarrow> Game" where
  "handle_keydown ship_image now k g0 =
     (let g = (if k = K_ESCAPE then g0\<lparr>running := False\<rparr> else g0)
      in if state g = titanic_game_over then
           (if is_restart_key k then (reset_titanic ship_image now g)\<lparr>state := titanic_playing\<rparr>
            else if k = K_m then g\<lparr>state := mode_select\<rparr>
            else g)
         else if state g = memory_game_over then
           (if is_restart_key k then (reset_memory g)\<lparr>state := memory_ready\<rparr>
            else if k = K_m then g\<lparr>state := mode_select\<rparr>
            else g)
         else g)"

fun handle_event :: "image_size \<Rightarrow> int \<Rightarrow> Game \<Rightarrow> event \<Rightarrow> Game" where
  "handle_event ship_image now g QUIT = g\<lparr>running := False\<rparr>"
| "handle_event ship_image now g (KEYDOWN k) = handle_keydown ship_image now k g"
| "handle_event ship_image now g OTHER_EVENT = g"

definition handle_events :: "image_size \<Rightarrow> int \<Rightarrow> event list \<Rightarrow> Game \<Rightarrow> Game" where
  \<comment> \<open>The loop \<^verbatim>\<open>for event in pygame.event.get()\<close>.\<close>
  "handle_events ship_image now evs g = foldl (handle_event ship_image now) g evs"

definition move_up_of :: "Tick \<Rightarrow> bool" where
  \<comment> \<open>\<^verbatim>\<open>move_up\<close> once the keyboard and the Pico have been read.\<close>
  "move_up_of inp = ((keys inp K_w \<or> keys inp K_UP) \<or> pico_up inp)"

definition move_down_of :: "Tick \<Rightarrow> bool" where
  "move_down_of inp = ((keys inp K_s \<or> keys inp K_DOWN) \<or> pico_down inp)"

definition dt_of :: "Tick \<Rightarrow> real" where
  \<comment> \<open>\<^verbatim>\<open>dt = dt_ms / 16.6667\<close>.\<close>
  "dt_of inp = real_of_int (dt_ms inp) / 16.6667"

subsection \<open>Mode selection and the Titanic game\<close>

definition mode_select_step :: "image_size \<Rightarrow> int \<Rightarrow> bool \<Rightarrow> bool \<Rightarrow> Game \<Rightarrow> Game" where
  "mode_select_step ship_image now move_up move_down g =
     (if move_up then (reset_titanic ship_image now g)\<lparr>state := titanic_menu\<rparr>
      else if move_down then (reset_memory g)\<lparr>state := memory_ready\<rparr>
      else g)"

definition titanic_menu_step :: "Tick \<Rightarrow> bool \<Rightarrow> bool \<Rightarrow> Game \<Rightarrow> Game" where
  "titanic_menu_step inp move_up move_down g =
     (if keys inp K_SPACE \<or> keys inp K_RETURN \<or> move_up \<or> move_down
      then g\<lparr>state := titanic_playing\<rparr> else g)"

fun iceberg_hit :: "Rect \<Rightarrow> IcebergPair list \<Rightarrow> bool" where
  \<comment> \<open>The loop over \<^verbatim>\<open>icebergs\<close> that sets \<^verbatim>\<open>hit\<close> and breaks at the first collision.\<close>
  "iceberg_hit pcb [] = False"
| "iceberg_hit pcb (ib # ibs) =
     (let (t_rect, b_rect) = collision_rects ib
      in if colliderect pcb t_rect \<or> colliderect pcb b_rect then True
         else iceberg_hit pcb ibs)"

definition out_of_bounds :: "Player \<Rightarrow> bool" where
  \<comment> \<open>\<^verbatim>\<open>player.rect.top <= 0 or player.rect.bottom >= HEIGHT\<close>.\<close>
  "out_of_bounds p = (rect_top (rect p) \<le> 0 \<or> rect_bottom (rect p) \<ge> HEIGHT)"

definition titanic_hit :: "Player \<Rightarrow> IcebergPair list \<Rightarrow> bool" where
  \<comment> \<open>The value of \<^verbatim>\<open>hit\<close> when \<^verbatim>\<open>if hit:\<close> tests it.\<close>
  "titanic_hit p ibs =
     (let hit = iceberg_hit (collision_rect p) ibs
      in if \<not> hit \<and> out_of_bounds p then True else hit)"

fun collect_stars :: "Rect \<Rightarrow> IcebergPair list \<Rightarrow> int \<Rightarrow> IcebergPair list \<times> int" where
  \<comment> \<open>The loop under \<^verbatim>\<open># Estrelas\<close>: the icebergs and the score after it.\<close>
  "collect_stars pr [] sc = ([], sc)"
| "collect_stars pr (ib # ibs) sc =
     (case star_rect ib of
        None \<Rightarrow> (let (ibs', sc') = collect_stars pr ibs sc in (ib # ibs', sc'))
      | Some sr \<Rightarrow>
          if rect_truth sr \<and> colliderect pr sr
          then (let (ibs', sc') = collect_stars pr ibs (sc + 1)
                in (ib\<lparr>ib_star_collected := True\<rparr> # ibs', sc'))
          else (let (ibs', sc') = collect_stars pr ibs sc in (ib # ibs', sc')))"

definition titanic_spawn_due :: "Tick \<Rightarrow> Game \<Rightarrow> bool" where
  \<comment> \<open>\<^verbatim>\<open>now >= next_spawn\<close>.\<close>
  "titanic_spawn_due inp g = (real_of_int (ticks inp) \<ge> next_spawn g)"

definition titanic_icebergs_moved :: "Tick \<Rightarrow> Game \<Rightarrow> IcebergPair list" where
  \<comment> \<open>The list \<^verbatim>\<open>icebergs\<close> of the \<^verbatim>\<open>titanic_playing\<close> branch when its collision loop
      starts: after the spawn test, the loop of \<^verbatim>\<open>ib.update(speed, dt)\<close> and the pruning.\<close>
  "titanic_icebergs_moved inp g =
     (let level = compute_level (score g);
          gap = titanic_gap level;
          speed = titanic_speed level;
          ibs1 = (if titanic_spawn_due inp g
                  then icebergs g @ [create_iceberg_pair (rand_gap_y inp) gap (rand_unit inp)]
                  else icebergs g);
          ibs2 = map (IcebergPair_update speed (dt_of inp)) ibs1
      in filter (\<lambda>ib. \<not> is_off_screen ib) ibs2)"

definition titanic_playing_step :: "image_size \<Rightarrow> Tick \<Rightarrow> bool \<Rightarrow> bool \<Rightarrow> Game \<Rightarrow> Game" where
  "titanic_playing_step ship_image inp move_up move_down g =
     (let level = compute_level (score g);
          dt = dt_of inp;
          p1 = Player_update move_up move_down dt (player g);
          spawn_interval_ms = titanic_spawn_interval_ms level;
          now = ticks inp;
          ns1 = (if titanic_spawn_due inp g then real_of_int (now + spawn_interval_ms)
                 else next_spawn g);
          ibs3 = titanic_icebergs_moved inp g;
          hit = titanic_hit p1 ibs3;
          g1 = g\<lparr>player := p1, icebergs := ibs3, next_spawn := ns1\<rparr>;
          g2 = (if hit then
                  (let g1' = g1\<lparr>lives_left := lives_left g1 - 1\<rparr>
                   in if lives_left g1' \<le> 0 then g1'\<lparr>state := titanic_game_over\<rparr>
                      else g1'\<lparr>player := create_player ship_image, icebergs := [],
                                next_spawn := real_of_int (now + 1000)\<rparr>)
                else g1)
      in if state g2 = titanic_playing
         then (let (ibs', sc') = collect_stars (rect (player g2)) (icebergs g2) (score g2)
               in g2\<lparr>icebergs := ibs', score := sc'\<rparr>)
         else g2)"

subsection \<open>The memory game\<close>

definition memory_ready_step :: "Tick \<Rightarrow> Game \<Rightarrow> Game" where
  "memory_ready_step inp g =
     g\<lparr>mem_sequence := map (\<lambda>i. if rand_choice inp i then ''U'' else ''D'')
                           [0 ..< nat (mem_level g)],
       mem_show_index := 0, mem_showing_arrow := True, mem_last_change := ticks inp,
       mem_player_inputs := [], mem_mismatch_positions := [], state := memory_show\<rparr>"

definition memory_show_step :: "Tick \<Rightarrow> Game \<Rightarrow> Game" where
  "memory_show_step inp g =
     (let now = ticks inp
      in if mem_showing_arrow g then
           (if now - mem_last_change g \<ge> MEM_SHOW_MS
            then g\<lparr>mem_showing_arrow := False, mem_last_change := now\<rparr> else g)
         else
           (if now - mem_last_change g \<ge> MEM_GAP_MS then
              (let g1 = g\<lparr>mem_show_index := mem_show_index g + 1\<rparr>
               in if mem_show_index g1 \<ge> int (length (mem_sequence g1))
                  then g1\<lparr>mem_player_inputs := [], state := memory_input\<rparr>
                  else g1\<lparr>mem_showing_arrow := True, mem_last_change := now\<rparr>)
            else g))"

definition memory_step_of :: "int \<Rightarrow> bool \<Rightarrow> bool \<Rightarrow> Game \<Rightarrow> string option" where
  \<comment> \<open>The local \<^verbatim>\<open>step\<close> of the \<^verbatim>\<open>memory_input\<close> branch (\<^verbatim>\<open>None\<close> when no press is taken).\<close>
  "memory_step_of now pressed_up pressed_down g =
     (if now - mem_last_input_time g \<ge> MEM_DEBOUNCE_MS
      then (if pressed_up then Some ''U'' else if pressed_down then Some ''D'' else None)
      else None)"

definition mismatch_of :: "string list \<Rightarrow> string list \<Rightarrow> nat list" where
  \<comment> \<open>\<^verbatim>\<open>[i for i in range(len(mem_sequence)) if mem_player_inputs[i] != mem_sequence[i]]\<close>,
      evaluated only where the inputs are at least as long as the sequence.\<close>
  "mismatch_of inputs sequence =
     filter (\<lambda>i. inputs ! i \<noteq> sequence ! i) [0 ..< length sequence]"

definition memory_evaluate :: "int \<Rightarrow> Game \<Rightarrow> Game" where
  \<comment> \<open>The body of \<^verbatim>\<open>if len(mem_player_inputs) >= len(mem_sequence):\<close>.\<close>
  "memory_evaluate now g =
     (let mismatch = mismatch_of (mem_player_inputs g) (mem_sequence g)
      in if mismatch \<noteq> [] then
           (let last_success0 = mem_level g - 1;
                last_success = (if last_success0 < 0 then 0 else last_success0)
            in g\<lparr>mem_mismatch_positions := mismatch,
                 mem_best_level := max (mem_best_level g) last_success,
                 state := memory_game_over\<rparr>)
         else
           g\<lparr>mem_best_level := max (mem_best_level g) (mem_level g),
             mem_level := mem_level g + 1, mem_last_change := now,
             state := memory_success\<rparr>)"

definition memory_input_step :: "Tick \<Rightarrow> bool \<Rightarrow> bool \<Rightarrow> Game \<Rightarrow> Game" where
  "memory_input_step inp pressed_up pressed_down g =
     (let now = ticks inp
      in case memory_step_of now pressed_up pressed_down g of
           None \<Rightarrow> g
         | Some step \<Rightarrow>
             (let g1 = g\<lparr>mem_last_input_time := now,
                         mem_player_inputs := mem_player_inputs g @ [step]\<rparr>
              in if length (mem_player_inputs g1) \<ge> length (mem_sequence g1)
                 then memory_evaluate now g1 else g1))"

definition memory_success_step :: "Tick \<Rightarrow> Game \<Rightarrow> Game" where
  "memory_success_step inp g =
     (if ticks inp - mem_last_change g \<ge> 1000 then g\<lparr>state := memory_ready\<rparr> else g)"

subsection \<open>The loop body and the loop\<close>

definition state_logic :: "image_size \<Rightarrow> Tick \<Rightarrow> Game \<Rightarrow> Game" where
  \<comment> \<open>From the polling of the keyboard to the end of the \<^verbatim>\<open>if state == ...\<close> chain.\<close>
  "state_logic ship_image inp g =
     (let move_up = move_up_of inp;
          move_down = move_down_of inp;
          pressed_up = (move_up \<and> \<not> prev_move_up g);
          pressed_down = (move_down \<and> \<not> prev_move_down g)
      in case state g of
           mode_select \<Rightarrow> mode_select_step ship_image (ticks inp) move_up move_down g
         | titanic_menu \<Rightarrow> titanic_menu_step inp move_up move_down g
         | titanic_playing \<Rightarrow> titanic_playing_step ship_image inp move_up move_down g
         | titanic_game_over \<Rightarrow> g
         | memory_ready \<Rightarrow> memory_ready_step inp g
         | memory_show \<Rightarrow> memory_show_step inp g
         | memory_input \<Rightarrow> memory_input_step inp pressed_up pressed_down g
         | memory_success \<Rightarrow> memory_success_step inp g
         | memory_game_over \<Rightarrow> g)"

definition tick :: "image_size \<Rightarrow> Tick \<Rightarrow> Game \<Rightarrow> Game" where
  \<comment> \<open>One iteration of \<^verbatim>\<open>while running:\<close>, drawing left out.\<close>
  "tick ship_image inp g =
     (let g1 = handle_events ship_image (ticks inp) (events inp) g;
          g2 = state_logic ship_image inp g1
      in g2\<lparr>prev_move_up := move_up_of inp, prev_move_down := move_down_of inp\<rparr>)"

fun main_loop :: "image_size \<Rightarrow> Game \<Rightarrow> Tick list \<Rightarrow> Game" where
  \<comment> \<open>\<^verbatim>\<open>while running:\<close> over the inputs of successive iterations.\<close>
  "main_loop ship_image g [] = g"
| "main_loop ship_image g (inp # inps) =
     (if running g then main_loop ship_image (tick ship_image inp g) inps else g)"

definition initial_game :: "image_size \<Rightarrow> int \<Rightarrow> Game" where
  \<comment> \<open>The variables as \<^verbatim>\<open>main\<close> sets them before the loop; the second argument is the
      clock when \<^verbatim>\<open>reset_titanic\<close> reads it.\<close>
  "initial_game ship_image now =
     \<lparr>player = create_player ship_image, icebergs = [], score = 0,
      next_spawn = real_of_int (now + 1000), lives_left = INITIAL_LIVES,
      mem_level = 1, mem_best_level = 0, mem_sequence = [], mem_show_index = 0,
      mem_showing_arrow = False, mem_last_change = 0, mem_player_inputs = [],
      mem_last_input_time = 0, mem_mismatch_positions = [],
      state = mode_select, prev_move_up = False, prev_move_down = False, running = True\<rparr>"

section \<open>Definitions that follow the specification\<close>

text \<open>
  The level as the specification writes it, \<open>clamp(score // 5 + 1, 1, 10)\<close>, with the
  floor of the exact quotient for \<open>//\<close>.  It is compared with \<^const>\<open>compute_level\<close> below.
\<close>

definition clamp_spec :: "int \<Rightarrow> int \<Rightarrow> int \<Rightarrow> int" where
  "clamp_spec v lo hi = (if v < lo then lo else if hi < v then hi else v)"

definition level_spec :: "int \<Rightarrow> int" where
  "level_spec sc = clamp_spec (\<lfloor>real_of_int sc / 5\<rfloor> + 1) 1 10"

text \<open>A sequence of calls of \<^verbatim>\<open>Player.update\<close>, each with its own arguments.\<close>

fun apply_updates :: "Player \<Rightarrow> (bool \<times> bool \<times> real) list \<Rightarrow> Player" where
  "apply_updates p [] = p"
| "apply_updates p ((move_up, move_down, dt) # us) =
     apply_updates (Player_update move_up move_down dt p) us"


definition in_band :: "Player \<Rightarrow> bool" where
  \<comment> \<open>The rectangle, from its top edge to its top edge plus its height, lies within the
      vertical band \<open>[20, HEIGHT - 20]\<close>.\<close>
  "in_band p = (rect_top (rect p) \<ge> 20 \<and> rect_bottom (rect p) \<le> HEIGHT - 20)"

section \<open>Concrete scenarios\<close>

text \<open>
  A playing state whose player (for a ship image of 96 by 64 pixels) sits at the top
  margin, and a tick of 17 ms on which only the up key is held.
\<close>

definition pinned_game :: Game where
  "pinned_game =
     (initial_game (96, 64) 0)\<lparr>player := \<lparr>rect = mk_rect 192 20 96 64\<rparr>, state := titanic_playing\<rparr>"

definition hold_up_tick :: Tick where
  "hold_up_tick =
     \<lparr>dt_ms = 17, events = [], keys = (\<lambda>k. k = K_UP), pico_up = False, pico_down = False,
      ticks = 500, rand_gap_y = 270, rand_unit = 1 / 2, rand_choice = (\<lambda>i. True)\<rparr>"

text \<open>
  Two iceberg pairs as \<^const>\<open>create_iceberg_pair\<close> makes them, moved to the left: one whose
  drawn icebergs overlap the player and whose slit is to the right of it, and one whose
  slit is inside the player's collision rectangle.
\<close>

definition far_pair :: IcebergPair where
  "far_pair = (create_iceberg_pair 400 140 (1 / 2))\<lparr>ib_x := 250\<rparr>"

definition near_pair :: IcebergPair where
  "near_pair = (create_iceberg_pair 400 140 (1 / 2))\<lparr>ib_x := 200\<rparr>"

text \<open>
  A tick at clock \<open>t\<close> with only the up key, the down key, both or neither held, and two
  states of the memory game in its input phase: sequence U, D, U with U, U entered, and
  sequence U, D with U entered.
\<close>

definition key_tick :: "int \<Rightarrow> bool \<Rightarrow> bool \<Rightarrow> Tick" where
  "key_tick t u d =
     \<lparr>dt_ms = 17, events = [], keys = (\<lambda>k. (k = K_UP \<and> u) \<or> (k = K_DOWN \<and> d)),
      pico_up = False, pico_down = False, ticks = t, rand_gap_y = 270, rand_unit = 1 / 2,
      rand_choice = (\<lambda>i. True)\<rparr>"

definition udu_game :: Game where
  "udu_game =
     (initial_game (96, 64) 0)\<lparr>mem_level := 3, mem_best_level := 2,
        mem_sequence := [''U'', ''D'', ''U''], mem_show_index := 3,
        mem_player_inputs := [''U'', ''U''], mem_last_input_time := 5000,
        state := memory_input\<rparr>"

definition ud_game :: Game where
  "ud_game =
     (initial_game (96, 64) 0)\<lparr>mem_level := 2, mem_best_level := 1,
        mem_sequence := [''U'', ''D''], mem_show_index := 2,
        mem_player_inputs := [''U''], mem_last_input_time := 3000, state := memory_input\<rparr>"

text \<open>
  The input phase of a round on the sequence U, D, U, with the inputs entered so far, the
  time of the last accepted input, and the levels of the two buttons on the previous
  tick.
\<close>

definition input_phase :: "string list \<Rightarrow> int \<Rightarrow> bool \<Rightarrow> bool \<Rightarrow> Game" where
  "input_phase ins t0 pu pd =
     (initial_game (96, 64) 0)\<lparr>mem_level := 3, mem_best_level := 2,
        mem_sequence := [''U'', ''D'', ''U''], mem_show_index := 3,
        mem_player_inputs := ins, mem_last_input_time := t0,
        state := memory_input, prev_move_up := pu, prev_move_down := pd\<rparr>"

text \<open>
  A Titanic game that has just ended while the up button was held, the tick on which the
  M key is pressed with the up button still held, and a selector left behind by a
  Titanic session that scored 7, with a best memory level of 4.
\<close>

definition game_over_holding :: Game where
  "game_over_holding =
     (initial_game (96, 64) 0)\<lparr>score := 7, lives_left := 0, state := titanic_game_over,
        prev_move_up := True\<rparr>"

definition abandon_holding_tick :: Tick where
  "abandon_holding_tick = (key_tick 9000 True False)\<lparr>events := [KEYDOWN K_m]\<rparr>"

definition selector_after_session :: Game where
  "selector_after_session =
     (initial_game (96, 64) 0)\<lparr>score := 7, lives_left := 0, mem_best_level := 4\<rparr>"

text \<open>
  Playing states of the Titanic game for a ship image of 96 by 64 pixels: one with given
  icebergs and no spawn due at clock 500, and one at score 5 with a spawn due at clock
  2000; the pair that the second spawns, after its first move at level 2; and the two
  pairs above after their move of one tick of 17 ms at level 1.
\<close>

definition playing_with :: "IcebergPair list \<Rightarrow> Game" where
  "playing_with ibs = (initial_game (96, 64) 0)\<lparr>icebergs := ibs, state := titanic_playing\<rparr>"

definition level2_game :: Game where
  "level2_game =
     (initial_game (96, 64) 0)\<lparr>score := 5, next_spawn := 2000, state := titanic_playing\<rparr>"

definition level2_pair :: IcebergPair where
  "level2_pair = (create_iceberg_pair 270 212 (1 / 2))\<lparr>ib_x := 1000 - 4.45 * (17 / 16.6667)\<rparr>"

definition moved_far :: IcebergPair where
  "moved_far = far_pair\<lparr>ib_x := 250 - 4.0 * (17 / 16.6667)\<rparr>"

definition moved_near :: IcebergPair where
  "moved_near = near_pair\<lparr>ib_x := 200 - 4.0 * (17 / 16.6667)\<rparr>"

section \<open>Basic facts\<close>

lemmas config_defs =
  WIDTH_def HEIGHT_def PIPE_WIDTH_def PIPE_GAP_BASE_def PIPE_BASE_SPEED_def
  PIPE_SPAWN_BASE_MS_def PLAYER_SPEED_def PLAYER_MARGIN_TOP_BOTTOM_def INITIAL_LIVES_def
  ICEBERG_HITBOX_SCALE_X_def PLAYER_HITBOX_SHRINK_def MEM_SHOW_MS_def MEM_GAP_MS_def
  MEM_DEBOUNCE_MS_def

lemmas rect_defs =
  mk_rect_def rect_top_def rect_bottom_def rect_left_def rect_right_def set_top_def
  set_bottom_def set_centerx_def set_centery_def inflate_def c_div2_def

lemma floor_div5: "\<lfloor>real_of_int sc / 5\<rfloor> = sc div 5"
  by (metis floor_divide_of_int_eq of_int_numeral)

section \<open>The difficulty model\<close>

text \<open>
  Claim C6.  For every score (non-negative or not) the level the code computes is the
  specification's \<open>clamp(score // 5 + 1, 1, 10)\<close> with floor division; it lies in
  \<open>[1, 10]\<close>, never decreases when the score grows, is \<open>k + 1\<close> at score \<open>5k\<close> for
  \<open>k\<close> from 0 to 9, and is 10 from score 45 on.
\<close>

theorem compute_level_spec:
  "compute_level sc = level_spec sc
   \<and> 1 \<le> compute_level sc \<and> compute_level sc \<le> 10
   \<and> (sc \<le> sc' \<longrightarrow> compute_level sc \<le> compute_level sc')
   \<and> (0 \<le> k \<and> k \<le> 9 \<longrightarrow> compute_level (5 * k) = k + 1)
   \<and> (45 \<le> sc \<longrightarrow> compute_level sc = 10)"
proof -
  have mono: "sc \<le> sc' \<Longrightarrow> sc div 5 \<le> sc' div 5"
    by (rule zdiv_mono1) simp_all
  have "compute_level sc = level_spec sc"
    by (simp add: compute_level_def level_spec_def clamp_spec_def floor_div5)
  moreover have "1 \<le> compute_level sc \<and> compute_level sc \<le> 10"
    by (simp add: compute_level_def)
  moreover have "sc \<le> sc' \<longrightarrow> compute_level sc \<le> compute_level sc'"
    using mono unfolding compute_level_def by fastforce
  moreover have "0 \<le> k \<and> k \<le> 9 \<longrightarrow> compute_level (5 * k) = k + 1"
    by (simp add: compute_level_def)
  moreover have "45 \<le> sc \<longrightarrow> compute_level sc = 10"
    unfolding compute_level_def by (simp; presburger)
  ultimately show ?thesis by blast
qed

theorem compute_level_spec_witness:
  "compute_level 7 = level_spec 7 \<and> compute_level 7 = 2 \<and> compute_level 7 \<le> compute_level 31
   \<and> compute_level (5 * 9) = 10 \<and> compute_level 200 = 10"
  using compute_level_spec [of 7 31 9] compute_level_spec [of 200 200 0]
  by (simp add: compute_level_def)

text \<open>The three difficulty parameters as functions of a level from 1 to 10.\<close>

lemma difficulty_formulas:
  assumes "1 \<le> L" and "L \<le> 10"
  shows "titanic_gap L = max 140 (220 - (L - 1) * 8)
       \<and> titanic_speed L = 4.0 + real_of_int (L - 1) * 0.45
       \<and> titanic_spawn_interval_ms L = max 700 (1500 - (L - 1) * 80)
       \<and> titanic_gap L \<ge> 140 \<and> titanic_speed L \<ge> 4.0
       \<and> titanic_gap 2 = 212 \<and> titanic_speed 2 = 4.45 \<and> titanic_spawn_interval_ms 2 = 1420"
  using assms
  by (simp add: titanic_gap_def titanic_speed_def titanic_spawn_interval_ms_def config_defs)

section \<open>The player stays inside the screen\<close>

lemma Player_update_h: "rect_h (rect (Player_update u d dt p)) = rect_h (rect p)"
  by (simp add: Player_update_def Let_def rect_defs)

lemma Player_update_w: "rect_w (rect (Player_update u d dt p)) = rect_w (rect p)"
  by (simp add: Player_update_def Let_def rect_defs)

lemma Player_update_bottom:
  "rect_bottom (rect (Player_update u d dt p)) \<le> HEIGHT - PLAYER_MARGIN_TOP_BOTTOM"
  by (simp add: Player_update_def Let_def rect_defs)

lemma Player_update_top:
  "rect_h (rect p) \<le> HEIGHT - 2 * PLAYER_MARGIN_TOP_BOTTOM
   \<Longrightarrow> PLAYER_MARGIN_TOP_BOTTOM \<le> rect_top (rect (Player_update u d dt p))"
  by (simp add: Player_update_def Let_def rect_defs)

lemma create_player_rect:
  "rect_h (rect (create_player ship)) = 64 \<and> rect_y (rect (create_player ship)) = 238"
  by (simp add: create_player_def Let_def rect_defs config_defs)

lemma apply_updates_h: "rect_h (rect (apply_updates p us)) = rect_h (rect p)"
  by (induction p us rule: apply_updates.induct) (simp_all add: Player_update_h)














section \<open>Hit tests of the Titanic game\<close>

lemma out_of_bounds_after_update:
  "rect_h (rect p) \<le> HEIGHT - 2 * PLAYER_MARGIN_TOP_BOTTOM
   \<Longrightarrow> \<not> out_of_bounds (Player_update u d dt p)"
  using Player_update_top [of p u d dt] Player_update_bottom [of u d dt p]
  by (simp add: out_of_bounds_def config_defs)

lemma mk_rect_sel:
  "rect_x (mk_rect a b c d) = a" "rect_y (mk_rect a b c d) = b"
  "rect_w (mk_rect a b c d) = c" "rect_h (mk_rect a b c d) = d"
  by (simp_all add: mk_rect_def)

subsection \<open>The out-of-bounds test\<close>

lemma pinned_game_fields:
  "player pinned_game = \<lparr>rect = mk_rect 192 20 96 64\<rparr>" "icebergs pinned_game = []"
  "score pinned_game = 0" "next_spawn pinned_game = 1000" "lives_left pinned_game = 3"
  "state pinned_game = titanic_playing"
  by (simp_all add: pinned_game_def initial_game_def config_defs)

lemma hold_up_tick_fields:
  "ticks hold_up_tick = 500" "events hold_up_tick = []"
  "move_up_of hold_up_tick" "\<not> move_down_of hold_up_tick"
  by (simp_all add: hold_up_tick_def dt_of_def move_up_of_def move_down_of_def)

lemma pinned_update:
  "Player_update True False (dt_of hold_up_tick) \<lparr>rect = mk_rect 192 20 96 64\<rparr>
     = \<lparr>rect = mk_rect 192 20 96 64\<rparr>"
  by (simp add: hold_up_tick_def dt_of_def Player_update_def player_dy_def py_round_def Let_def rect_defs config_defs)

lemma pinned_no_hit: "\<not> titanic_hit \<lparr>rect = mk_rect 192 20 96 64\<rparr> []"
  by (simp add: titanic_hit_def out_of_bounds_def rect_defs config_defs)

lemma pinned_step:
  "titanic_playing_step (96, 64) hold_up_tick True False pinned_game
     = pinned_game\<lparr>player := \<lparr>rect = mk_rect 192 20 96 64\<rparr>, icebergs := [], next_spawn := 1000\<rparr>"
  by (simp add: titanic_playing_step_def titanic_icebergs_moved_def titanic_spawn_due_def Let_def pinned_game_fields hold_up_tick_fields
      pinned_update pinned_no_hit)

lemma pinned_tick:
  "tick (96, 64) hold_up_tick pinned_game
     = pinned_game\<lparr>player := \<lparr>rect = mk_rect 192 20 96 64\<rparr>, icebergs := [], next_spawn := 1000,
         prev_move_up := True, prev_move_down := False\<rparr>"
  by (simp add: tick_def state_logic_def handle_events_def Let_def pinned_game_fields
      hold_up_tick_fields pinned_step)

text \<open>
  Claim C3, as stated, fails.  The test compares the player's rectangle with the screen
  edges, \<open>top \<le> 0\<close> or \<open>bottom \<ge> HEIGHT\<close>, not with the margins the clamp uses.  On the
  tick below the player starts at the top margin with the up key held, the clamp pins it
  there, and the test is false: no life is lost and the game stays in \<^verbatim>\<open>titanic_playing\<close>.
\<close>

theorem oob_test_counterexample:
  "rect_top (rect (player pinned_game)) = PLAYER_MARGIN_TOP_BOTTOM
   \<and> move_up_of hold_up_tick
   \<and> rect_top (rect (player (tick (96, 64) hold_up_tick pinned_game))) = PLAYER_MARGIN_TOP_BOTTOM
   \<and> \<not> out_of_bounds (player (tick (96, 64) hold_up_tick pinned_game))
   \<and> lives_left (tick (96, 64) hold_up_tick pinned_game) = lives_left pinned_game
   \<and> state (tick (96, 64) hold_up_tick pinned_game) = titanic_playing"
  by (simp add: pinned_tick pinned_game_fields hold_up_tick_fields out_of_bounds_def
      rect_defs config_defs)

text \<open>
  Claim C3, amended.  For a player no taller than the band between the margins (the
  program's player is 64 high), the out-of-bounds test is false after every
  \<^verbatim>\<open>Player.update\<close>, so \<^verbatim>\<open>hit\<close> is exactly the result of the iceberg loop; with no iceberg
  on screen and none due, a playing tick costs no life wherever the player is.
\<close>

theorem oob_test_never_fires:
  assumes "rect_h (rect (player g)) \<le> HEIGHT - 2 * PLAYER_MARGIN_TOP_BOTTOM"
  shows "\<not> out_of_bounds (Player_update u d dt (player g))
       \<and> titanic_hit (Player_update u d dt (player g)) ibs
           = iceberg_hit (collision_rect (Player_update u d dt (player g))) ibs
       \<and> (icebergs g = [] \<and> real_of_int (ticks inp) < next_spawn g \<and> state g = titanic_playing
            \<longrightarrow> lives_left (titanic_playing_step ship inp u d g) = lives_left g
              \<and> state (titanic_playing_step ship inp u d g) = titanic_playing)"
proof -
  have a: "\<not> out_of_bounds (Player_update u d dt (player g))" for dt
    using assms by (rule out_of_bounds_after_update)
  have b: "titanic_hit (Player_update u d dt (player g)) ibs
           = iceberg_hit (collision_rect (Player_update u d dt (player g))) ibs" for dt ibs
    using a [of dt] by (simp add: titanic_hit_def)
  have c: "icebergs g = [] \<and> real_of_int (ticks inp) < next_spawn g \<and> state g = titanic_playing
            \<longrightarrow> lives_left (titanic_playing_step ship inp u d g) = lives_left g
              \<and> state (titanic_playing_step ship inp u d g) = titanic_playing"
    using b [of "dt_of inp" "[]"]
    by (simp add: titanic_playing_step_def titanic_icebergs_moved_def titanic_spawn_due_def Let_def)
  show ?thesis using a b c by blast
qed

theorem oob_test_never_fires_witness:
  "\<not> out_of_bounds (Player_update True False (dt_of hold_up_tick) (player pinned_game))
   \<and> lives_left (titanic_playing_step (96, 64) hold_up_tick True False pinned_game) = 3"
  using oob_test_never_fires [of pinned_game True False "dt_of hold_up_tick" "[]" hold_up_tick "(96, 64)"]
  by (simp add: pinned_game_def hold_up_tick_def initial_game_def rect_defs config_defs)

subsection \<open>Collision rectangles\<close>

lemma py_int_fifth: "0 \<le> n \<Longrightarrow> py_int (real_of_int n * PLAYER_HITBOX_SHRINK) = n div 5"
proof -
  assume n: "0 \<le> n"
  have eq: "real_of_int n * PLAYER_HITBOX_SHRINK = real_of_int n / 5"
    by (simp add: PLAYER_HITBOX_SHRINK_def)
  have "0 \<le> real_of_int n / 5" using n by simp
  then have "py_int (real_of_int n / 5) = n div 5"
    by (simp add: py_int_def floor_div5)
  then show ?thesis by (simp only: eq)
qed

lemma shrink_x_120:
  "rect_w r = 120 \<Longrightarrow> shrink_x r = mk_rect (rect_x r + 59) (rect_y r) 1 (rect_h r)"
  by (simp add: shrink_x_def py_int_def ICEBERG_HITBOX_SCALE_X_def Let_def rect_defs)

lemma rects_eq:
  "rects ib = (mk_rect (py_int (ib_x ib)) 0 (ib_width ib) (rect_h (fst (rects ib))),
               mk_rect (py_int (ib_x ib)) (rect_y (snd (rects ib))) (ib_width ib)
                 (HEIGHT - rect_y (snd (rects ib))))"
  by (simp add: rects_def Let_def mk_rect_def)

lemma collision_rects_120:
  assumes "ib_width ib = PIPE_WIDTH"
  shows "collision_rects ib =
     (mk_rect (py_int (ib_x ib) + 59) 0 1 (rect_h (fst (rects ib))),
      mk_rect (py_int (ib_x ib) + 59) (rect_y (snd (rects ib))) 1 (rect_h (snd (rects ib))))"
proof -
  have w: "rect_w (fst (rects ib)) = 120" "rect_w (snd (rects ib)) = 120"
    using assms by (simp_all add: rects_def Let_def mk_rect_def PIPE_WIDTH_def)
  have x: "rect_x (fst (rects ib)) = py_int (ib_x ib)" "rect_x (snd (rects ib)) = py_int (ib_x ib)"
    "rect_y (fst (rects ib)) = 0"
    by (simp_all add: rects_def Let_def mk_rect_def)
  show ?thesis
    using w x by (simp add: collision_rects_def shrink_x_120 case_prod_beta)
qed

lemma collision_rect_eq:
  assumes "0 \<le> rect_w (rect p)" and "0 \<le> rect_h (rect p)"
  shows "collision_rect p =
     mk_rect (rect_x (rect p) + rect_w (rect p) div 5 div 2)
             (rect_y (rect p) + rect_h (rect p) div 5 div 2)
             (rect_w (rect p) - rect_w (rect p) div 5)
             (rect_h (rect p) - rect_h (rect p) div 5)"
proof -
  have "0 \<le> rect_w (rect p) div 5" "0 \<le> rect_h (rect p) div 5"
    using assms by simp_all
  then show ?thesis
    using assms by (simp add: collision_rect_def py_int_fifth Let_def rect_defs)
qed

lemma iceberg_hit_iff:
  "iceberg_hit pcb ibs \<longleftrightarrow>
     (\<exists>b \<in> set ibs. colliderect pcb (fst (collision_rects b))
                   \<or> colliderect pcb (snd (collision_rects b)))"
  by (induction ibs) (auto simp: Let_def split: prod.splits)

lemma slit_miss:
  assumes "ib_width ib = PIPE_WIDTH" and "0 \<le> rect_w pcb"
    and "rect_right pcb \<le> py_int (ib_x ib) + 59 \<or> py_int (ib_x ib) + 60 \<le> rect_left pcb"
  shows "\<not> iceberg_hit pcb [ib]"
  using assms(2,3)
  by (auto simp: collision_rects_120 [OF assms(1)] colliderect_def rect_defs Let_def)

text \<open>The collision rectangles of a pair of the nominal width and of the player.\<close>

lemma collision_geometry:
  assumes "ib_width ib = PIPE_WIDTH"
    and "0 \<le> rect_w (rect p)" and "0 \<le> rect_h (rect p)"
    and "rect_h (rect p) \<le> HEIGHT - 2 * PLAYER_MARGIN_TOP_BOTTOM"
  shows "rects ib =
           (mk_rect (py_int (ib_x ib)) 0 120 (rect_h (fst (rects ib))),
            mk_rect (py_int (ib_x ib)) (rect_y (snd (rects ib))) 120
              (HEIGHT - rect_y (snd (rects ib))))
       \<and> collision_rects ib =
           (mk_rect (py_int (ib_x ib) + 59) 0 1 (rect_h (fst (rects ib))),
            mk_rect (py_int (ib_x ib) + 59) (rect_y (snd (rects ib))) 1
              (HEIGHT - rect_y (snd (rects ib))))
       \<and> collision_rect p =
           mk_rect (rect_x (rect p) + rect_w (rect p) div 5 div 2)
                   (rect_y (rect p) + rect_h (rect p) div 5 div 2)
                   (rect_w (rect p) - rect_w (rect p) div 5)
                   (rect_h (rect p) - rect_h (rect p) div 5)
       \<and> (titanic_hit (Player_update u d dt p) ibs \<longleftrightarrow>
            (\<exists>b \<in> set ibs.
                colliderect (collision_rect (Player_update u d dt p)) (fst (collision_rects b))
              \<or> colliderect (collision_rect (Player_update u d dt p)) (snd (collision_rects b))))
       \<and> (rect_right (collision_rect p) \<le> py_int (ib_x ib) + 59
            \<or> py_int (ib_x ib) + 60 \<le> rect_left (collision_rect p)
          \<longrightarrow> \<not> iceberg_hit (collision_rect p) [ib])"
proof -
  have r: "rects ib =
           (mk_rect (py_int (ib_x ib)) 0 120 (rect_h (fst (rects ib))),
            mk_rect (py_int (ib_x ib)) (rect_y (snd (rects ib))) 120
              (HEIGHT - rect_y (snd (rects ib))))"
    using rects_eq [of ib] assms(1) by (simp add: PIPE_WIDTH_def)
  have hb: "rect_h (snd (rects ib)) = HEIGHT - rect_y (snd (rects ib))"
    by (simp add: rects_def Let_def mk_rect_def)
  have c: "collision_rects ib =
           (mk_rect (py_int (ib_x ib) + 59) 0 1 (rect_h (fst (rects ib))),
            mk_rect (py_int (ib_x ib) + 59) (rect_y (snd (rects ib))) 1
              (HEIGHT - rect_y (snd (rects ib))))"
    using collision_rects_120 [OF assms(1)] hb by simp
  have p: "collision_rect p =
           mk_rect (rect_x (rect p) + rect_w (rect p) div 5 div 2)
                   (rect_y (rect p) + rect_h (rect p) div 5 div 2)
                   (rect_w (rect p) - rect_w (rect p) div 5)
                   (rect_h (rect p) - rect_h (rect p) div 5)"
    using assms(2,3) by (rule collision_rect_eq)
  have h: "titanic_hit (Player_update u d dt p) ibs \<longleftrightarrow>
            (\<exists>b \<in> set ibs.
                colliderect (collision_rect (Player_update u d dt p)) (fst (collision_rects b))
              \<or> colliderect (collision_rect (Player_update u d dt p)) (snd (collision_rects b)))"
    using out_of_bounds_after_update [OF assms(4), of u d dt]
    by (simp add: titanic_hit_def iceberg_hit_iff)
  have "0 \<le> rect_w (collision_rect p)"
    using assms(2) by (simp add: p mk_rect_def)
  then have m: "rect_right (collision_rect p) \<le> py_int (ib_x ib) + 59
            \<or> py_int (ib_x ib) + 60 \<le> rect_left (collision_rect p)
          \<longrightarrow> \<not> iceberg_hit (collision_rect p) [ib]"
    using slit_miss [OF assms(1), of "collision_rect p"] by blast
  show ?thesis using r c p h m by blast
qed


lemma create_player_96: "create_player (96, 64) = \<lparr>rect = mk_rect 192 238 96 64\<rparr>"
  by (simp add: create_player_def py_int_def Let_def rect_defs config_defs)

lemma collision_rect_96:
  "collision_rect \<lparr>rect = mk_rect 192 238 96 64\<rparr> = mk_rect 201 244 77 52"
  by (simp add: collision_rect_def py_int_def Let_def rect_defs config_defs)

section \<open>Ticks outside the game-over states\<close>

text \<open>
  In a state other than the two game-over states the event loop can only clear
  \<^verbatim>\<open>running\<close>; the state logic then runs on the state it found.
\<close>

lemma handle_keydown_other:
  "state g \<noteq> titanic_game_over \<Longrightarrow> state g \<noteq> memory_game_over
   \<Longrightarrow> handle_keydown ship now k g = g\<lparr>running := running g \<and> k \<noteq> K_ESCAPE\<rparr>"
  by (simp add: handle_keydown_def Let_def)

lemma handle_event_other:
  assumes "state g \<noteq> titanic_game_over" and "state g \<noteq> memory_game_over"
  shows "\<exists>b. handle_event ship now g e = g\<lparr>running := b\<rparr>"
proof (cases e)
  case QUIT
  then show ?thesis by auto
next
  case (KEYDOWN k)
  then show ?thesis using handle_keydown_other [OF assms] by auto
next
  case OTHER_EVENT
  have "g = g\<lparr>running := running g\<rparr>" by simp
  then show ?thesis using OTHER_EVENT by (metis handle_event.simps(3))
qed

lemma handle_events_other:
  "state g \<noteq> titanic_game_over \<Longrightarrow> state g \<noteq> memory_game_over
   \<Longrightarrow> \<exists>b. handle_events ship now evs g = g\<lparr>running := b\<rparr>"
proof (induction evs arbitrary: g)
  case Nil
  have "g = g\<lparr>running := running g\<rparr>" by simp
  then show ?case unfolding handle_events_def by (metis foldl_Nil)
next
  case (Cons e evs)
  obtain b where b: "handle_event ship now g e = g\<lparr>running := b\<rparr>"
    using handle_event_other [OF Cons.prems] by blast
  have "\<exists>c. handle_events ship now evs (g\<lparr>running := b\<rparr>) = g\<lparr>running := b\<rparr>\<lparr>running := c\<rparr>"
    using Cons.prems by (intro Cons.IH) simp_all
  then show ?case using b by (auto simp: handle_events_def)
qed

section \<open>The input phase of the memory game\<close>

lemma memory_input_step_running:
  "memory_input_step inp pu pd (g\<lparr>running := b\<rparr>) = (memory_input_step inp pu pd g)\<lparr>running := b\<rparr>"
  by (simp add: memory_input_step_def memory_step_of_def memory_evaluate_def Let_def
      split: option.splits)

lemma tick_memory_input:
  assumes "state g = memory_input"
  shows "\<exists>b. tick ship inp g =
     (memory_input_step inp (move_up_of inp \<and> \<not> prev_move_up g)
        (move_down_of inp \<and> \<not> prev_move_down g) g)
     \<lparr>running := b, prev_move_up := move_up_of inp, prev_move_down := move_down_of inp\<rparr>"
proof -
  obtain b where b: "handle_events ship (ticks inp) (events inp) g = g\<lparr>running := b\<rparr>"
    using handle_events_other [of g ship "ticks inp" "events inp"] assms by auto
  show ?thesis
    by (rule exI [of _ b])
       (simp add: tick_def b state_logic_def assms memory_input_step_running Let_def)
qed


lemma set_mismatch_of:
  "set (mismatch_of inputs sequence) = {i. i < length sequence \<and> inputs ! i \<noteq> sequence ! i}"
  by (auto simp: mismatch_of_def)

lemma mismatch_of_empty:
  "mismatch_of inputs sequence = [] \<longleftrightarrow> (\<forall>i < length sequence. inputs ! i = sequence ! i)"
  by (auto simp: mismatch_of_def filter_empty_conv)

lemma memory_step_of_press:
  "memory_step_of now pu pd g =
     (if now - mem_last_input_time g \<ge> MEM_DEBOUNCE_MS \<and> (pu \<or> pd)
      then Some (if pu then ''U'' else ''D'') else None)"
  by (simp add: memory_step_of_def)

lemma memory_input_step_inputs:
  "mem_player_inputs (memory_input_step inp pu pd g) =
     (if ticks inp - mem_last_input_time g \<ge> MEM_DEBOUNCE_MS \<and> (pu \<or> pd)
      then mem_player_inputs g @ [if pu then ''U'' else ''D''] else mem_player_inputs g)"
  by (simp add: memory_input_step_def memory_step_of_press memory_evaluate_def Let_def)

lemma memory_input_step_sequence:
  "mem_sequence (memory_input_step inp pu pd g) = mem_sequence g"
  by (simp add: memory_input_step_def memory_step_of_press memory_evaluate_def Let_def)

lemma memory_input_step_round:
  assumes "ticks inp - mem_last_input_time g \<ge> MEM_DEBOUNCE_MS" and "pu \<or> pd"
    and "length (mem_sequence g) \<le> length (mem_player_inputs g) + 1"
  shows "memory_input_step inp pu pd g =
     memory_evaluate (ticks inp)
       (g\<lparr>mem_last_input_time := ticks inp,
          mem_player_inputs := mem_player_inputs g @ [if pu then ''U'' else ''D'']\<rparr>)"
  using assms by (simp add: memory_input_step_def memory_step_of_press Let_def)

lemma memory_evaluate_fail:
  assumes "mismatch_of (mem_player_inputs g) (mem_sequence g) \<noteq> []"
  shows "mem_mismatch_positions (memory_evaluate now g)
           = mismatch_of (mem_player_inputs g) (mem_sequence g)"
    and "mem_best_level (memory_evaluate now g) = max (mem_best_level g) (max 0 (mem_level g - 1))"
    and "mem_level (memory_evaluate now g) = mem_level g"
    and "state (memory_evaluate now g) = memory_game_over"
  using assms by (simp_all add: memory_evaluate_def Let_def)

lemma memory_evaluate_pass:
  assumes "mismatch_of (mem_player_inputs g) (mem_sequence g) = []"
  shows "mem_best_level (memory_evaluate now g) = max (mem_best_level g) (mem_level g)"
    and "mem_level (memory_evaluate now g) = mem_level g + 1"
    and "state (memory_evaluate now g) = memory_success"
  using assms by (simp_all add: memory_evaluate_def Let_def)

lemma udu_fields:
  "state udu_game = memory_input" "mem_last_input_time udu_game = 5000"
  "prev_move_up udu_game = False" "prev_move_down udu_game = False"
  "mem_sequence udu_game = [''U'', ''D'', ''U'']" "mem_player_inputs udu_game = [''U'', ''U'']"
  "mem_level udu_game = 3" "mem_best_level udu_game = 2"
  by (simp_all add: udu_game_def initial_game_def)

lemma key_tick_fields:
  "ticks (key_tick t u d) = t" "move_up_of (key_tick t u d) = u"
  "move_down_of (key_tick t u d) = d" "events (key_tick t u d) = []"
  by (simp_all add: key_tick_def move_up_of_def move_down_of_def)

lemma mismatch_udu: "mismatch_of [''U'', ''U'', ''U''] [''U'', ''D'', ''U''] = [1]"
  by (simp add: mismatch_of_def upt_rec)

lemma tick_memory_round:
  assumes "state g = memory_input"
    and "ticks inp - mem_last_input_time g \<ge> MEM_DEBOUNCE_MS"
    and "(move_up_of inp \<and> \<not> prev_move_up g) \<or> (move_down_of inp \<and> \<not> prev_move_down g)"
    and "length (mem_sequence g) \<le> length (mem_player_inputs g) + 1"
  shows "\<exists>b. tick ship inp g =
     (memory_evaluate (ticks inp)
       (g\<lparr>mem_last_input_time := ticks inp,
          mem_player_inputs := mem_player_inputs g
             @ [if move_up_of inp \<and> \<not> prev_move_up g then ''U'' else ''D'']\<rparr>))
     \<lparr>running := b, prev_move_up := move_up_of inp, prev_move_down := move_down_of inp\<rparr>"
  using tick_memory_input [OF assms(1), of ship inp]
    memory_input_step_round [OF assms(2,3,4)]
  by simp

lemma memory_evaluate_keeps:
  "mem_player_inputs (memory_evaluate now g) = mem_player_inputs g"
  "mem_sequence (memory_evaluate now g) = mem_sequence g"
  by (simp_all add: memory_evaluate_def Let_def)

lemma memory_round_fail:
  assumes "state g = memory_input"
    and "ticks inp - mem_last_input_time g \<ge> MEM_DEBOUNCE_MS"
    and "(move_up_of inp \<and> \<not> prev_move_up g) \<or> (move_down_of inp \<and> \<not> prev_move_down g)"
    and "length (mem_sequence g) \<le> length (mem_player_inputs g) + 1"
    and "ins = mem_player_inputs g
             @ [if move_up_of inp \<and> \<not> prev_move_up g then ''U'' else ''D'']"
    and "mismatch_of ins (mem_sequence g) \<noteq> []"
  shows "mem_player_inputs (tick ship inp g) = ins"
    and "mem_sequence (tick ship inp g) = mem_sequence g"
    and "mem_mismatch_positions (tick ship inp g) = mismatch_of ins (mem_sequence g)"
    and "mem_best_level (tick ship inp g) = max (mem_best_level g) (max 0 (mem_level g - 1))"
    and "mem_level (tick ship inp g) = mem_level g"
    and "state (tick ship inp g) = memory_game_over"
proof -
  let ?g1 = "g\<lparr>mem_last_input_time := ticks inp, mem_player_inputs := ins\<rparr>"
  obtain b where t: "tick ship inp g = (memory_evaluate (ticks inp) ?g1)
      \<lparr>running := b, prev_move_up := move_up_of inp, prev_move_down := move_down_of inp\<rparr>"
    using tick_memory_round [OF assms(1-4), of ship] assms(5) by auto
  have e: "mismatch_of (mem_player_inputs ?g1) (mem_sequence ?g1) \<noteq> []"
    using assms(6) by simp
  show "mem_player_inputs (tick ship inp g) = ins" "mem_sequence (tick ship inp g) = mem_sequence g"
    by (simp_all add: t memory_evaluate_keeps)
  show "mem_mismatch_positions (tick ship inp g) = mismatch_of ins (mem_sequence g)"
    "mem_best_level (tick ship inp g) = max (mem_best_level g) (max 0 (mem_level g - 1))"
    "mem_level (tick ship inp g) = mem_level g"
    "state (tick ship inp g) = memory_game_over"
    using memory_evaluate_fail [OF e, of "ticks inp"] by (simp_all add: t)
qed

lemma memory_round_pass:
  assumes "state g = memory_input"
    and "ticks inp - mem_last_input_time g \<ge> MEM_DEBOUNCE_MS"
    and "(move_up_of inp \<and> \<not> prev_move_up g) \<or> (move_down_of inp \<and> \<not> prev_move_down g)"
    and "length (mem_sequence g) \<le> length (mem_player_inputs g) + 1"
    and "ins = mem_player_inputs g
             @ [if move_up_of inp \<and> \<not> prev_move_up g then ''U'' else ''D'']"
    and "mismatch_of ins (mem_sequence g) = []"
  shows "mem_player_inputs (tick ship inp g) = ins"
    and "mem_sequence (tick ship inp g) = mem_sequence g"
    and "mem_best_level (tick ship inp g) = max (mem_best_level g) (mem_level g)"
    and "mem_level (tick ship inp g) = mem_level g + 1"
    and "state (tick ship inp g) = memory_success"
proof -
  let ?g1 = "g\<lparr>mem_last_input_time := ticks inp, mem_player_inputs := ins\<rparr>"
  obtain b where t: "tick ship inp g = (memory_evaluate (ticks inp) ?g1)
      \<lparr>running := b, prev_move_up := move_up_of inp, prev_move_down := move_down_of inp\<rparr>"
    using tick_memory_round [OF assms(1-4), of ship] assms(5) by auto
  have e: "mismatch_of (mem_player_inputs ?g1) (mem_sequence ?g1) = []"
    using assms(6) by simp
  show "mem_player_inputs (tick ship inp g) = ins" "mem_sequence (tick ship inp g) = mem_sequence g"
    by (simp_all add: t memory_evaluate_keeps)
  show "mem_best_level (tick ship inp g) = max (mem_best_level g) (mem_level g)"
    "mem_level (tick ship inp g) = mem_level g + 1"
    "state (tick ship inp g) = memory_success"
    using memory_evaluate_pass [OF e, of "ticks inp"] by (simp_all add: t)
qed

lemma memory_round:
  assumes "state g = memory_input"
    and "ticks inp - mem_last_input_time g \<ge> MEM_DEBOUNCE_MS"
    and "(move_up_of inp \<and> \<not> prev_move_up g) \<or> (move_down_of inp \<and> \<not> prev_move_down g)"
    and "length (mem_sequence g) \<le> length (mem_player_inputs g) + 1"
  shows "mem_sequence (tick ship inp g) = mem_sequence g
     \<and> mem_player_inputs (tick ship inp g)
         = mem_player_inputs g @ [if move_up_of inp \<and> \<not> prev_move_up g then ''U'' else ''D'']
     \<and> (if \<exists>i < length (mem_sequence g).
              mem_player_inputs (tick ship inp g) ! i \<noteq> mem_sequence g ! i
        then set (mem_mismatch_positions (tick ship inp g))
               = {i. i < length (mem_sequence g)
                     \<and> mem_player_inputs (tick ship inp g) ! i \<noteq> mem_sequence g ! i}
           \<and> distinct (mem_mismatch_positions (tick ship inp g))
           \<and> mem_best_level (tick ship inp g)
               = max (mem_best_level g) (max 0 (mem_level g - 1))
           \<and> mem_level (tick ship inp g) = mem_level g
           \<and> state (tick ship inp g) = memory_game_over
        else mem_best_level (tick ship inp g) = max (mem_best_level g) (mem_level g)
           \<and> mem_level (tick ship inp g) = mem_level g + 1
           \<and> state (tick ship inp g) = memory_success)"
proof -
  define ins where "ins = mem_player_inputs g
             @ [if move_up_of inp \<and> \<not> prev_move_up g then ''U'' else ''D'']"
  show ?thesis
  proof (cases "mismatch_of ins (mem_sequence g) = []")
    case True
    have no: "\<not> (\<exists>i < length (mem_sequence g). ins ! i \<noteq> mem_sequence g ! i)"
      using True by (simp add: mismatch_of_empty)
    show ?thesis
      using no memory_round_pass [OF assms ins_def True, of ship]
      by (simp add: ins_def [symmetric])
  next
    case False
    have yes: "\<exists>i < length (mem_sequence g). ins ! i \<noteq> mem_sequence g ! i"
      using False by (simp add: mismatch_of_empty)
    have d: "distinct (mismatch_of ins (mem_sequence g))" by (simp add: mismatch_of_def)
    show ?thesis
      using yes d memory_round_fail [OF assms ins_def False, of ship]
      by (simp add: ins_def [symmetric] set_mismatch_of)
  qed
qed

lemma ud_fields:
  "state ud_game = memory_input" "mem_last_input_time ud_game = 3000"
  "prev_move_up ud_game = False" "prev_move_down ud_game = False"
  "mem_sequence ud_game = [''U'', ''D'']" "mem_player_inputs ud_game = [''U'']"
  "mem_level ud_game = 2" "mem_best_level ud_game = 1"
  by (simp_all add: ud_game_def initial_game_def)

lemma nth_udu:
  "(\<exists>i<3. [''U'', ''U'', ''U''] ! i \<noteq> [''U'', ''D'', ''U''] ! i)"
  "\<not> (\<exists>i<2. [''U'', ''D''] ! i \<noteq> [''U'', ''D''] ! i)"
  by (auto intro: exI [of _ "Suc 0"])

text \<open>
  Claim C1.  On a tick of the input phase that takes a press (a rising edge, the debounce
  time elapsed) and brings the input buffer to the length of the sequence, the round is
  evaluated index by index.  If some index differs, the mismatch positions are exactly
  the indices where input and sequence differ, the best level becomes the maximum of
  itself and \<open>level - 1\<close> (not below 0), and the state is \<^verbatim>\<open>memory_game_over\<close>; otherwise the
  best level becomes the maximum of itself and the level, the level grows by one and the
  state is \<^verbatim>\<open>memory_success\<close>.  For the sequence U, D, U and the inputs U, U, U the
  mismatch positions are \<open>{1}\<close> and the game is over.
\<close>

theorem memory_round_evaluated:
  "(state g = memory_input
     \<and> ticks inp - mem_last_input_time g \<ge> MEM_DEBOUNCE_MS
     \<and> ((move_up_of inp \<and> \<not> prev_move_up g) \<or> (move_down_of inp \<and> \<not> prev_move_down g))
     \<and> length (mem_sequence g) \<le> length (mem_player_inputs g) + 1
    \<longrightarrow>
       mem_sequence (tick ship inp g) = mem_sequence g
     \<and> mem_player_inputs (tick ship inp g)
         = mem_player_inputs g @ [if move_up_of inp \<and> \<not> prev_move_up g then ''U'' else ''D'']
     \<and> (if \<exists>i < length (mem_sequence g).
              mem_player_inputs (tick ship inp g) ! i \<noteq> mem_sequence g ! i
        then set (mem_mismatch_positions (tick ship inp g))
               = {i. i < length (mem_sequence g)
                     \<and> mem_player_inputs (tick ship inp g) ! i \<noteq> mem_sequence g ! i}
           \<and> distinct (mem_mismatch_positions (tick ship inp g))
           \<and> mem_best_level (tick ship inp g)
               = max (mem_best_level g) (max 0 (mem_level g - 1))
           \<and> mem_level (tick ship inp g) = mem_level g
           \<and> state (tick ship inp g) = memory_game_over
        else mem_best_level (tick ship inp g) = max (mem_best_level g) (mem_level g)
           \<and> mem_level (tick ship inp g) = mem_level g + 1
           \<and> state (tick ship inp g) = memory_success))
   \<and> mem_sequence udu_game = [''U'', ''D'', ''U'']
   \<and> mem_player_inputs (tick ship (key_tick 6000 True False) udu_game) = [''U'', ''U'', ''U'']
   \<and> set (mem_mismatch_positions (tick ship (key_tick 6000 True False) udu_game)) = {1}
   \<and> mem_best_level (tick ship (key_tick 6000 True False) udu_game)
       = max (mem_best_level udu_game) (mem_level udu_game - 1)
   \<and> state (tick ship (key_tick 6000 True False) udu_game) = memory_game_over"
proof -
  have general: "state g = memory_input
     \<and> ticks inp - mem_last_input_time g \<ge> MEM_DEBOUNCE_MS
     \<and> ((move_up_of inp \<and> \<not> prev_move_up g) \<or> (move_down_of inp \<and> \<not> prev_move_down g))
     \<and> length (mem_sequence g) \<le> length (mem_player_inputs g) + 1
    \<longrightarrow>
       mem_sequence (tick ship inp g) = mem_sequence g
     \<and> mem_player_inputs (tick ship inp g)
         = mem_player_inputs g @ [if move_up_of inp \<and> \<not> prev_move_up g then ''U'' else ''D'']
     \<and> (if \<exists>i < length (mem_sequence g).
              mem_player_inputs (tick ship inp g) ! i \<noteq> mem_sequence g ! i
        then set (mem_mismatch_positions (tick ship inp g))
               = {i. i < length (mem_sequence g)
                     \<and> mem_player_inputs (tick ship inp g) ! i \<noteq> mem_sequence g ! i}
           \<and> distinct (mem_mismatch_positions (tick ship inp g))
           \<and> mem_best_level (tick ship inp g)
               = max (mem_best_level g) (max 0 (mem_level g - 1))
           \<and> mem_level (tick ship inp g) = mem_level g
           \<and> state (tick ship inp g) = memory_game_over
        else mem_best_level (tick ship inp g) = max (mem_best_level g) (mem_level g)
           \<and> mem_level (tick ship inp g) = mem_level g + 1
           \<and> state (tick ship inp g) = memory_success)"
    by (intro impI, elim conjE, rule memory_round, assumption+)
  have h: "state udu_game = memory_input"
    "ticks (key_tick 6000 True False) - mem_last_input_time udu_game \<ge> MEM_DEBOUNCE_MS"
    "(move_up_of (key_tick 6000 True False) \<and> \<not> prev_move_up udu_game)
      \<or> (move_down_of (key_tick 6000 True False) \<and> \<not> prev_move_down udu_game)"
    "length (mem_sequence udu_game) \<le> length (mem_player_inputs udu_game) + 1"
    "[''U'', ''U'', ''U''] = mem_player_inputs udu_game
       @ [if move_up_of (key_tick 6000 True False) \<and> \<not> prev_move_up udu_game
          then ''U'' else ''D'']"
    "mismatch_of [''U'', ''U'', ''U''] (mem_sequence udu_game) \<noteq> []"
    by (simp_all add: udu_fields key_tick_fields mismatch_udu MEM_DEBOUNCE_MS_def)
  have concrete: "mem_sequence udu_game = [''U'', ''D'', ''U'']
   \<and> mem_player_inputs (tick ship (key_tick 6000 True False) udu_game) = [''U'', ''U'', ''U'']
   \<and> set (mem_mismatch_positions (tick ship (key_tick 6000 True False) udu_game)) = {1}
   \<and> mem_best_level (tick ship (key_tick 6000 True False) udu_game)
       = max (mem_best_level udu_game) (mem_level udu_game - 1)
   \<and> state (tick ship (key_tick 6000 True False) udu_game) = memory_game_over"
    using memory_round_fail [OF h, of ship]
    by (simp add: udu_fields mismatch_udu)
  show ?thesis using general concrete by (rule conjI)
qed

theorem memory_round_evaluated_witness:
  "state ud_game = memory_input
   \<and> mem_player_inputs (tick (96, 64) (key_tick 4000 False True) ud_game) = [''U'', ''D'']
   \<and> mem_level (tick (96, 64) (key_tick 4000 False True) ud_game) = 3
   \<and> mem_best_level (tick (96, 64) (key_tick 4000 False True) ud_game) = 2
   \<and> state (tick (96, 64) (key_tick 4000 False True) ud_game) = memory_success"
  using memory_round_evaluated [of ud_game "key_tick 4000 False True" "(96, 64)"]
  by (simp add: ud_fields key_tick_fields nth_udu MEM_DEBOUNCE_MS_def)


subsection \<open>Debounce and the order of the two buttons\<close>

lemma memory_input_step_last:
  "mem_last_input_time (memory_input_step inp pu pd g) =
     (if ticks inp - mem_last_input_time g \<ge> MEM_DEBOUNCE_MS \<and> (pu \<or> pd)
      then ticks inp else mem_last_input_time g)"
  by (simp add: memory_input_step_def memory_step_of_press memory_evaluate_def Let_def)

lemma memory_input_step_dropped:
  "\<not> (ticks inp - mem_last_input_time g \<ge> MEM_DEBOUNCE_MS \<and> (pu \<or> pd))
   \<Longrightarrow> memory_input_step inp pu pd g = g"
  by (auto simp: memory_input_step_def memory_step_of_press Let_def)

lemma tick_input_fields:
  assumes "state g = memory_input"
  shows "mem_player_inputs (tick ship inp g) =
     (if ticks inp - mem_last_input_time g \<ge> MEM_DEBOUNCE_MS
         \<and> ((move_up_of inp \<and> \<not> prev_move_up g) \<or> (move_down_of inp \<and> \<not> prev_move_down g))
      then mem_player_inputs g @ [if move_up_of inp \<and> \<not> prev_move_up g then ''U'' else ''D'']
      else mem_player_inputs g)"
    and "mem_last_input_time (tick ship inp g) =
     (if ticks inp - mem_last_input_time g \<ge> MEM_DEBOUNCE_MS
         \<and> ((move_up_of inp \<and> \<not> prev_move_up g) \<or> (move_down_of inp \<and> \<not> prev_move_down g))
      then ticks inp else mem_last_input_time g)"
    and "prev_move_up (tick ship inp g) = move_up_of inp"
    and "prev_move_down (tick ship inp g) = move_down_of inp"
    and "\<not> (ticks inp - mem_last_input_time g \<ge> MEM_DEBOUNCE_MS
         \<and> ((move_up_of inp \<and> \<not> prev_move_up g) \<or> (move_down_of inp \<and> \<not> prev_move_down g)))
       \<Longrightarrow> state (tick ship inp g) = memory_input"
proof -
  obtain b where t: "tick ship inp g =
     (memory_input_step inp (move_up_of inp \<and> \<not> prev_move_up g)
        (move_down_of inp \<and> \<not> prev_move_down g) g)
     \<lparr>running := b, prev_move_up := move_up_of inp, prev_move_down := move_down_of inp\<rparr>"
    using tick_memory_input [OF assms] by blast
  show "mem_player_inputs (tick ship inp g) =
     (if ticks inp - mem_last_input_time g \<ge> MEM_DEBOUNCE_MS
         \<and> ((move_up_of inp \<and> \<not> prev_move_up g) \<or> (move_down_of inp \<and> \<not> prev_move_down g))
      then mem_player_inputs g @ [if move_up_of inp \<and> \<not> prev_move_up g then ''U'' else ''D'']
      else mem_player_inputs g)"
    by (simp add: t memory_input_step_inputs)
  show "mem_last_input_time (tick ship inp g) =
     (if ticks inp - mem_last_input_time g \<ge> MEM_DEBOUNCE_MS
         \<and> ((move_up_of inp \<and> \<not> prev_move_up g) \<or> (move_down_of inp \<and> \<not> prev_move_down g))
      then ticks inp else mem_last_input_time g)"
    by (simp add: t memory_input_step_last)
  show "prev_move_up (tick ship inp g) = move_up_of inp"
    "prev_move_down (tick ship inp g) = move_down_of inp"
    by (simp_all add: t)
  show "state (tick ship inp g) = memory_input"
    if "\<not> (ticks inp - mem_last_input_time g \<ge> MEM_DEBOUNCE_MS
         \<and> ((move_up_of inp \<and> \<not> prev_move_up g) \<or> (move_down_of inp \<and> \<not> prev_move_down g)))"
    using memory_input_step_dropped [OF that] assms by (simp add: t)
qed

lemma handle_events_Nil: "handle_events ship now [] g = g"
  by (simp add: handle_events_def)

lemma input_phase_fields:
  "state (input_phase ins t0 pu pd) = memory_input"
  "running (input_phase ins t0 pu pd)"
  "mem_player_inputs (input_phase ins t0 pu pd) = ins"
  "mem_last_input_time (input_phase ins t0 pu pd) = t0"
  "prev_move_up (input_phase ins t0 pu pd) = pu"
  "prev_move_down (input_phase ins t0 pu pd) = pd"
  "mem_sequence (input_phase ins t0 pu pd) = [''U'', ''D'', ''U'']"
  by (simp_all add: input_phase_def initial_game_def)

lemma input_phase_step:
  "length ins < 2 \<Longrightarrow>
   memory_input_step (key_tick t u d) pu' pd' (input_phase ins t0 pu pd) =
     (if t - t0 \<ge> 200 \<and> (pu' \<or> pd')
      then input_phase (ins @ [if pu' then ''U'' else ''D'']) t pu pd
      else input_phase ins t0 pu pd)"
  by (simp add: memory_input_step_def memory_step_of_press key_tick_fields input_phase_fields
      Let_def MEM_DEBOUNCE_MS_def)
     (simp add: input_phase_def)

lemma input_phase_tick:
  "length ins < 2 \<Longrightarrow>
   tick ship (key_tick t u d) (input_phase ins t0 pu pd) =
     (if t - t0 \<ge> 200 \<and> ((u \<and> \<not> pu) \<or> (d \<and> \<not> pd))
      then input_phase (ins @ [if u \<and> \<not> pu then ''U'' else ''D'']) t u d
      else input_phase ins t0 u d)"
  by (simp add: tick_def state_logic_def handle_events_Nil key_tick_fields input_phase_fields
      input_phase_step Let_def)
     (auto simp: input_phase_def)


lemma scenario_150:
  "main_loop ship (input_phase [] 0 False False)
     [key_tick 1000 True False, key_tick 1075 False False, key_tick 1150 True False,
      key_tick 1300 True False]
   = input_phase [''U''] 1000 True False"
  by (simp add: input_phase_tick input_phase_fields)

lemma scenario_200:
  "main_loop ship (input_phase [] 0 False False)
     [key_tick 1000 True False, key_tick 1100 False False, key_tick 1200 True False]
   = input_phase [''U'', ''U''] 1200 True False"
  by (simp add: input_phase_tick input_phase_fields)

text \<open>
  Claim C5.  On a tick of the input phase with a rising edge, the press is accepted
  (appended, and its time recorded) when at least 200 ms have passed since the last
  accepted input, 200 included, and is dropped otherwise, leaving buffer, time and state
  as they were.  Two presses 150 ms apart give one input, and the dropped press is not
  taken later while the key stays down; two presses 200 ms apart give two inputs.
\<close>

theorem debounce_window:
  "(state g = memory_input
     \<and> ((move_up_of inp \<and> \<not> prev_move_up g) \<or> (move_down_of inp \<and> \<not> prev_move_down g))
    \<longrightarrow>
      (ticks inp - mem_last_input_time g \<ge> 200
        \<longrightarrow> mem_player_inputs (tick ship inp g)
              = mem_player_inputs g @ [if move_up_of inp \<and> \<not> prev_move_up g then ''U'' else ''D'']
          \<and> mem_last_input_time (tick ship inp g) = ticks inp)
    \<and> (ticks inp - mem_last_input_time g < 200
        \<longrightarrow> mem_player_inputs (tick ship inp g) = mem_player_inputs g
          \<and> mem_last_input_time (tick ship inp g) = mem_last_input_time g
          \<and> state (tick ship inp g) = memory_input))
   \<and> mem_player_inputs
       (main_loop ship (input_phase [] 0 False False)
          [key_tick 1000 True False, key_tick 1075 False False, key_tick 1150 True False,
           key_tick 1300 True False]) = [''U'']
   \<and> mem_player_inputs
       (main_loop ship (input_phase [] 0 False False)
          [key_tick 1000 True False, key_tick 1100 False False, key_tick 1200 True False])
       = [''U'', ''U'']"
proof -
  have general: "ticks inp - mem_last_input_time g \<ge> 200
        \<longrightarrow> mem_player_inputs (tick ship inp g)
              = mem_player_inputs g @ [if move_up_of inp \<and> \<not> prev_move_up g then ''U'' else ''D'']
          \<and> mem_last_input_time (tick ship inp g) = ticks inp"
    "ticks inp - mem_last_input_time g < 200
        \<longrightarrow> mem_player_inputs (tick ship inp g) = mem_player_inputs g
          \<and> mem_last_input_time (tick ship inp g) = mem_last_input_time g
          \<and> state (tick ship inp g) = memory_input"
    if a: "state g = memory_input"
      and b: "(move_up_of inp \<and> \<not> prev_move_up g) \<or> (move_down_of inp \<and> \<not> prev_move_down g)"
    using b tick_input_fields(1,2,5) [OF a, where ship = ship and inp = inp]
    by (simp_all add: MEM_DEBOUNCE_MS_def)
  then have gen: "state g = memory_input
     \<and> ((move_up_of inp \<and> \<not> prev_move_up g) \<or> (move_down_of inp \<and> \<not> prev_move_down g))
    \<longrightarrow>
      (ticks inp - mem_last_input_time g \<ge> 200
        \<longrightarrow> mem_player_inputs (tick ship inp g)
              = mem_player_inputs g @ [if move_up_of inp \<and> \<not> prev_move_up g then ''U'' else ''D'']
          \<and> mem_last_input_time (tick ship inp g) = ticks inp)
    \<and> (ticks inp - mem_last_input_time g < 200
        \<longrightarrow> mem_player_inputs (tick ship inp g) = mem_player_inputs g
          \<and> mem_last_input_time (tick ship inp g) = mem_last_input_time g
          \<and> state (tick ship inp g) = memory_input)"
    by blast
  have s1: "mem_player_inputs
       (main_loop ship (input_phase [] 0 False False)
          [key_tick 1000 True False, key_tick 1075 False False, key_tick 1150 True False,
           key_tick 1300 True False]) = [''U'']"
    by (simp only: scenario_150 input_phase_fields)
  have s2: "mem_player_inputs
       (main_loop ship (input_phase [] 0 False False)
          [key_tick 1000 True False, key_tick 1100 False False, key_tick 1200 True False])
       = [''U'', ''U'']"
    by (simp only: scenario_200 input_phase_fields)
  show ?thesis
    by (rule conjI [OF gen conjI [OF s1 s2]])
qed

theorem debounce_window_witness:
  "state (input_phase [''U''] 1000 False False) = memory_input
   \<and> mem_player_inputs (tick (96, 64) (key_tick 1150 False True) (input_phase [''U''] 1000 False False))
       = [''U'']
   \<and> mem_player_inputs (tick (96, 64) (key_tick 1200 False True) (input_phase [''U''] 1000 False False))
       = [''U'', ''D'']"
  using debounce_window [of "input_phase [''U''] 1000 False False" "key_tick 1150 False True" "(96, 64)"]
    debounce_window [of "input_phase [''U''] 1000 False False" "key_tick 1200 False True" "(96, 64)"]
  by (simp add: input_phase_fields key_tick_fields)

text \<open>
  Claim C10.  A tick of the input phase leaves the buffer as it was or appends one symbol
  to it.  With a rising edge on both buttons and the debounce time elapsed the symbol is
  U.  The down press is not kept: while the input phase goes on, the next tick cannot
  append D for a down button that was already held.
\<close>

theorem one_symbol_per_tick:
  "state g = memory_input \<longrightarrow>
     (mem_player_inputs (tick ship inp g) = mem_player_inputs g
        \<or> mem_player_inputs (tick ship inp g) = mem_player_inputs g @ [''U'']
        \<or> mem_player_inputs (tick ship inp g) = mem_player_inputs g @ [''D''])
   \<and> length (mem_player_inputs (tick ship inp g)) \<le> length (mem_player_inputs g) + 1
   \<and> (move_up_of inp \<and> \<not> prev_move_up g \<and> move_down_of inp \<and> \<not> prev_move_down g
        \<and> ticks inp - mem_last_input_time g \<ge> MEM_DEBOUNCE_MS
      \<longrightarrow> mem_player_inputs (tick ship inp g) = mem_player_inputs g @ [''U''])
   \<and> (state (tick ship inp g) = memory_input \<and> move_down_of inp
      \<longrightarrow> mem_player_inputs (tick ship inp' (tick ship inp g))
            \<noteq> mem_player_inputs (tick ship inp g) @ [''D''])"
proof
  assume a: "state g = memory_input"
  note f = tick_input_fields(1) [OF a, where ship = ship and inp = inp]
  have one: "mem_player_inputs (tick ship inp g) = mem_player_inputs g
        \<or> mem_player_inputs (tick ship inp g) = mem_player_inputs g @ [''U'']
        \<or> mem_player_inputs (tick ship inp g) = mem_player_inputs g @ [''D'']"
    using f by (simp split: if_splits)
  then have len: "length (mem_player_inputs (tick ship inp g)) \<le> length (mem_player_inputs g) + 1"
    by auto
  have both: "move_up_of inp \<and> \<not> prev_move_up g \<and> move_down_of inp \<and> \<not> prev_move_down g
        \<and> ticks inp - mem_last_input_time g \<ge> MEM_DEBOUNCE_MS
      \<longrightarrow> mem_player_inputs (tick ship inp g) = mem_player_inputs g @ [''U'']"
    using f by simp
  have later: "mem_player_inputs (tick ship inp' (tick ship inp g))
            \<noteq> mem_player_inputs (tick ship inp g) @ [''D'']"
    if b: "state (tick ship inp g) = memory_input" and d: "move_down_of inp"
  proof -
    have "prev_move_down (tick ship inp g)"
      using tick_input_fields(4) [OF a, where ship = ship and inp = inp] d by simp
    then show ?thesis
      using tick_input_fields(1) [OF b, where ship = ship and inp = inp'] by (simp split: if_splits)
  qed
  show "(mem_player_inputs (tick ship inp g) = mem_player_inputs g
        \<or> mem_player_inputs (tick ship inp g) = mem_player_inputs g @ [''U'']
        \<or> mem_player_inputs (tick ship inp g) = mem_player_inputs g @ [''D''])
   \<and> length (mem_player_inputs (tick ship inp g)) \<le> length (mem_player_inputs g) + 1
   \<and> (move_up_of inp \<and> \<not> prev_move_up g \<and> move_down_of inp \<and> \<not> prev_move_down g
        \<and> ticks inp - mem_last_input_time g \<ge> MEM_DEBOUNCE_MS
      \<longrightarrow> mem_player_inputs (tick ship inp g) = mem_player_inputs g @ [''U''])
   \<and> (state (tick ship inp g) = memory_input \<and> move_down_of inp
      \<longrightarrow> mem_player_inputs (tick ship inp' (tick ship inp g))
            \<noteq> mem_player_inputs (tick ship inp g) @ [''D''])"
    using one len both later by blast
qed

theorem one_symbol_per_tick_witness:
  "state (input_phase [] 0 False False) = memory_input
   \<and> mem_player_inputs (tick (96, 64) (key_tick 1000 True True) (input_phase [] 0 False False))
       = [''U'']
   \<and> mem_player_inputs
       (tick (96, 64) (key_tick 1300 True True)
          (tick (96, 64) (key_tick 1000 True True) (input_phase [] 0 False False))) = [''U'']"
  using one_symbol_per_tick [of "input_phase [] 0 False False" "(96, 64)" "key_tick 1000 True True"
      "key_tick 1300 True True"]
  by (simp add: input_phase_tick input_phase_fields key_tick_fields)


section \<open>The mode selector\<close>

lemma tick_mode_select:
  assumes "state g = mode_select"
  shows "\<exists>b. tick ship inp g =
     (mode_select_step ship (ticks inp) (move_up_of inp) (move_down_of inp) (g\<lparr>running := b\<rparr>))
     \<lparr>prev_move_up := move_up_of inp, prev_move_down := move_down_of inp\<rparr>"
proof -
  obtain b where b: "handle_events ship (ticks inp) (events inp) g = g\<lparr>running := b\<rparr>"
    using handle_events_other [of g ship "ticks inp" "events inp"] assms by auto
  show ?thesis
    by (rule exI [of _ b]) (simp add: tick_def b state_logic_def assms Let_def)
qed

lemma selector_commit:
  assumes "state g = mode_select"
  shows "move_up_of inp \<longrightarrow>
           state (tick ship inp g) = titanic_menu \<and> score (tick ship inp g) = 0
         \<and> lives_left (tick ship inp g) = INITIAL_LIVES \<and> icebergs (tick ship inp g) = []
         \<and> player (tick ship inp g) = create_player ship
         \<and> next_spawn (tick ship inp g) = real_of_int (ticks inp + 1000)
         \<and> mem_best_level (tick ship inp g) = mem_best_level g"
    and "\<not> move_up_of inp \<and> move_down_of inp \<longrightarrow>
           state (tick ship inp g) = memory_ready \<and> mem_level (tick ship inp g) = 1
         \<and> mem_sequence (tick ship inp g) = [] \<and> mem_player_inputs (tick ship inp g) = []
         \<and> mem_mismatch_positions (tick ship inp g) = []
         \<and> mem_last_input_time (tick ship inp g) = 0
         \<and> score (tick ship inp g) = score g
         \<and> mem_best_level (tick ship inp g) = mem_best_level g"
    and "\<not> move_up_of inp \<and> \<not> move_down_of inp \<longrightarrow>
           state (tick ship inp g) = mode_select \<and> score (tick ship inp g) = score g
         \<and> mem_best_level (tick ship inp g) = mem_best_level g"
proof -
  obtain b where t: "tick ship inp g =
     (mode_select_step ship (ticks inp) (move_up_of inp) (move_down_of inp) (g\<lparr>running := b\<rparr>))
     \<lparr>prev_move_up := move_up_of inp, prev_move_down := move_down_of inp\<rparr>"
    using tick_mode_select [OF assms] by blast
  show "move_up_of inp \<longrightarrow>
           state (tick ship inp g) = titanic_menu \<and> score (tick ship inp g) = 0
         \<and> lives_left (tick ship inp g) = INITIAL_LIVES \<and> icebergs (tick ship inp g) = []
         \<and> player (tick ship inp g) = create_player ship
         \<and> next_spawn (tick ship inp g) = real_of_int (ticks inp + 1000)
         \<and> mem_best_level (tick ship inp g) = mem_best_level g"
    by (simp add: t mode_select_step_def reset_titanic_def)
  show "\<not> move_up_of inp \<and> move_down_of inp \<longrightarrow>
           state (tick ship inp g) = memory_ready \<and> mem_level (tick ship inp g) = 1
         \<and> mem_sequence (tick ship inp g) = [] \<and> mem_player_inputs (tick ship inp g) = []
         \<and> mem_mismatch_positions (tick ship inp g) = []
         \<and> mem_last_input_time (tick ship inp g) = 0
         \<and> score (tick ship inp g) = score g
         \<and> mem_best_level (tick ship inp g) = mem_best_level g"
    by (simp add: t mode_select_step_def reset_memory_def)
  show "\<not> move_up_of inp \<and> \<not> move_down_of inp \<longrightarrow>
           state (tick ship inp g) = mode_select \<and> score (tick ship inp g) = score g
         \<and> mem_best_level (tick ship inp g) = mem_best_level g"
    using assms by (simp add: t mode_select_step_def)
qed

lemma tick_after_events_selector:
  assumes "state (handle_events ship (ticks inp) (events inp) g) = mode_select"
  shows "tick ship inp g =
     (mode_select_step ship (ticks inp) (move_up_of inp) (move_down_of inp)
        (handle_events ship (ticks inp) (events inp) g))
     \<lparr>prev_move_up := move_up_of inp, prev_move_down := move_down_of inp\<rparr>"
  by (simp add: tick_def state_logic_def assms Let_def)

lemma abandon_events:
  assumes "state g = titanic_game_over \<or> state g = memory_game_over"
    and "events inp = [KEYDOWN K_m]"
  shows "handle_events ship (ticks inp) (events inp) g = g\<lparr>state := mode_select\<rparr>"
  using assms
  by (auto simp: handle_events_def handle_keydown_def is_restart_key_def Let_def)

lemma game_over_holding_fields:
  "state game_over_holding = titanic_game_over" "prev_move_up game_over_holding"
  "score game_over_holding = 7" "lives_left game_over_holding = 0"
  by (simp_all add: game_over_holding_def initial_game_def)

lemma abandon_holding_tick_fields:
  "events abandon_holding_tick = [KEYDOWN K_m]" "move_up_of abandon_holding_tick"
  "\<not> move_down_of abandon_holding_tick" "ticks abandon_holding_tick = 9000"
  by (simp_all add: abandon_holding_tick_def key_tick_def move_up_of_def move_down_of_def)

lemma abandon_holding_events:
  "handle_events ship 9000 [KEYDOWN K_m] game_over_holding
     = game_over_holding\<lparr>state := mode_select\<rparr>"
  using abandon_events [of game_over_holding abandon_holding_tick ship]
  by (simp add: game_over_holding_fields abandon_holding_tick_fields)

text \<open>
  Claim C9, as stated, fails.  The selector tests the levels \<^verbatim>\<open>move_up\<close> and \<^verbatim>\<open>move_down\<close>,
  not the rising edges, which the source computes for the memory game only.  Below, a
  Titanic game has ended with the up button held; the M key abandons it to the selector
  while the button is still held, so there is no rising edge on this tick, and the
  selector commits to the Titanic menu at once, with the score and the lives reset.
\<close>

theorem selector_edge_counterexample:
  "state game_over_holding = titanic_game_over
   \<and> events abandon_holding_tick = [KEYDOWN K_m]
   \<and> state (handle_events (96, 64) (ticks abandon_holding_tick) (events abandon_holding_tick)
        game_over_holding) = mode_select
   \<and> \<not> (move_up_of abandon_holding_tick \<and> \<not> prev_move_up game_over_holding)
   \<and> \<not> (move_down_of abandon_holding_tick \<and> \<not> prev_move_down game_over_holding)
   \<and> state (tick (96, 64) abandon_holding_tick game_over_holding) = titanic_menu
   \<and> score (tick (96, 64) abandon_holding_tick game_over_holding) = 0
   \<and> lives_left (tick (96, 64) abandon_holding_tick game_over_holding) = 3"
proof -
  have e: "state (handle_events (96, 64) (ticks abandon_holding_tick)
             (events abandon_holding_tick) game_over_holding) = mode_select"
    by (simp add: abandon_holding_tick_fields abandon_holding_events)
  show ?thesis
    by (simp add: tick_after_events_selector [OF e] abandon_holding_events
        mode_select_step_def reset_titanic_def game_over_holding_fields
        abandon_holding_tick_fields INITIAL_LIVES_def)
qed

text \<open>
  Claim C9, amended.  Commitment from the selector is level-triggered.  On a tick whose
  state is \<^verbatim>\<open>mode_select\<close> once its events are handled (a tick that starts in the selector,
  or the tick on which the M key abandons a finished game), up held, whether freshly
  pressed or held over, commits to the Titanic game with its state reset; otherwise down
  held commits to the memory game with its state reset to level 1; with neither held the
  selector stays.
\<close>

theorem selector_commits_on_level:
  "(state g = mode_select
      \<longrightarrow> state (handle_events ship (ticks inp) (events inp) g) = mode_select)
   \<and> ((state g = titanic_game_over \<or> state g = memory_game_over) \<and> events inp = [KEYDOWN K_m]
      \<longrightarrow> state (handle_events ship (ticks inp) (events inp) g) = mode_select)
   \<and> (state (handle_events ship (ticks inp) (events inp) g) = mode_select \<longrightarrow>
        (move_up_of inp \<longrightarrow>
             state (tick ship inp g) = titanic_menu \<and> score (tick ship inp g) = 0
           \<and> lives_left (tick ship inp g) = INITIAL_LIVES \<and> icebergs (tick ship inp g) = []
           \<and> player (tick ship inp g) = create_player ship
           \<and> next_spawn (tick ship inp g) = real_of_int (ticks inp + 1000))
      \<and> (\<not> move_up_of inp \<and> move_down_of inp \<longrightarrow>
             state (tick ship inp g) = memory_ready \<and> mem_level (tick ship inp g) = 1
           \<and> mem_sequence (tick ship inp g) = [] \<and> mem_player_inputs (tick ship inp g) = []
           \<and> mem_mismatch_positions (tick ship inp g) = []
           \<and> mem_last_input_time (tick ship inp g) = 0)
      \<and> (\<not> move_up_of inp \<and> \<not> move_down_of inp
           \<longrightarrow> state (tick ship inp g) = mode_select))"
proof -
  have 1: "state g = mode_select
      \<longrightarrow> state (handle_events ship (ticks inp) (events inp) g) = mode_select"
    using handle_events_other [of g ship "ticks inp" "events inp"] by auto
  have 2: "(state g = titanic_game_over \<or> state g = memory_game_over)
      \<and> events inp = [KEYDOWN K_m]
      \<longrightarrow> state (handle_events ship (ticks inp) (events inp) g) = mode_select"
    using abandon_events [of g inp ship] by auto
  have 3: "state (handle_events ship (ticks inp) (events inp) g) = mode_select \<longrightarrow>
        (move_up_of inp \<longrightarrow>
             state (tick ship inp g) = titanic_menu \<and> score (tick ship inp g) = 0
           \<and> lives_left (tick ship inp g) = INITIAL_LIVES \<and> icebergs (tick ship inp g) = []
           \<and> player (tick ship inp g) = create_player ship
           \<and> next_spawn (tick ship inp g) = real_of_int (ticks inp + 1000))
      \<and> (\<not> move_up_of inp \<and> move_down_of inp \<longrightarrow>
             state (tick ship inp g) = memory_ready \<and> mem_level (tick ship inp g) = 1
           \<and> mem_sequence (tick ship inp g) = [] \<and> mem_player_inputs (tick ship inp g) = []
           \<and> mem_mismatch_positions (tick ship inp g) = []
           \<and> mem_last_input_time (tick ship inp g) = 0)
      \<and> (\<not> move_up_of inp \<and> \<not> move_down_of inp
           \<longrightarrow> state (tick ship inp g) = mode_select)"
  proof
    assume e: "state (handle_events ship (ticks inp) (events inp) g) = mode_select"
    show "(move_up_of inp \<longrightarrow>
             state (tick ship inp g) = titanic_menu \<and> score (tick ship inp g) = 0
           \<and> lives_left (tick ship inp g) = INITIAL_LIVES \<and> icebergs (tick ship inp g) = []
           \<and> player (tick ship inp g) = create_player ship
           \<and> next_spawn (tick ship inp g) = real_of_int (ticks inp + 1000))
      \<and> (\<not> move_up_of inp \<and> move_down_of inp \<longrightarrow>
             state (tick ship inp g) = memory_ready \<and> mem_level (tick ship inp g) = 1
           \<and> mem_sequence (tick ship inp g) = [] \<and> mem_player_inputs (tick ship inp g) = []
           \<and> mem_mismatch_positions (tick ship inp g) = []
           \<and> mem_last_input_time (tick ship inp g) = 0)
      \<and> (\<not> move_up_of inp \<and> \<not> move_down_of inp
           \<longrightarrow> state (tick ship inp g) = mode_select)"
      using e
      by (simp add: tick_after_events_selector [OF e] mode_select_step_def reset_titanic_def
          reset_memory_def)
  qed
  show ?thesis by (rule conjI [OF 1 conjI [OF 2 3]])
qed

theorem selector_commits_on_level_witness:
  "state (initial_game (96, 64) 0) = mode_select
   \<and> state (tick (96, 64) (key_tick 1000 False True) (initial_game (96, 64) 0)) = memory_ready
   \<and> mem_level (tick (96, 64) (key_tick 1000 False True) (initial_game (96, 64) 0)) = 1
   \<and> state (tick (96, 64) (key_tick 1000 True True) (initial_game (96, 64) 0)) = titanic_menu
   \<and> state (tick (96, 64) (key_tick 1000 False False) (initial_game (96, 64) 0)) = mode_select
   \<and> state (tick (96, 64) abandon_holding_tick game_over_holding) = titanic_menu"
  using selector_commits_on_level [of "initial_game (96, 64) 0" "(96, 64)" "key_tick 1000 False True"]
    selector_commits_on_level [of "initial_game (96, 64) 0" "(96, 64)" "key_tick 1000 True True"]
    selector_commits_on_level [of "initial_game (96, 64) 0" "(96, 64)" "key_tick 1000 False False"]
    selector_commits_on_level [of game_over_holding "(96, 64)" abandon_holding_tick]
  by (simp add: initial_game_def key_tick_fields game_over_holding_fields
      abandon_holding_tick_fields)

section \<open>What a mode switch resets\<close>

lemma handle_keydown_best:
  "mem_best_level (handle_keydown ship now k g) = mem_best_level g"
  "state g \<noteq> memory_input \<Longrightarrow> state (handle_keydown ship now k g) \<noteq> memory_input"
  by (simp_all add: handle_keydown_def reset_titanic_def reset_memory_def Let_def)

lemma handle_event_best:
  "mem_best_level (handle_event ship now g e) = mem_best_level g"
  "state g \<noteq> memory_input \<Longrightarrow> state (handle_event ship now g e) \<noteq> memory_input"
  by (cases e; simp add: handle_keydown_best)+

lemma handle_events_best:
  "mem_best_level (handle_events ship now evs g) = mem_best_level g
   \<and> (state g \<noteq> memory_input \<longrightarrow> state (handle_events ship now evs g) \<noteq> memory_input)"
  unfolding handle_events_def
  by (induction evs arbitrary: g) (simp_all add: handle_event_best)

lemma titanic_playing_step_best:
  "mem_best_level (titanic_playing_step ship inp u d g) = mem_best_level g"
  by (simp add: titanic_playing_step_def titanic_icebergs_moved_def titanic_spawn_due_def Let_def case_prod_beta)

lemma state_logic_best:
  "state g \<noteq> memory_input \<Longrightarrow> mem_best_level (state_logic ship inp g) = mem_best_level g"
  by (cases "state g")
     (simp_all add: state_logic_def Let_def mode_select_step_def reset_titanic_def
       reset_memory_def titanic_menu_step_def titanic_playing_step_best memory_ready_step_def
       memory_show_step_def memory_success_step_def)

lemma tick_best:
  "state g \<noteq> memory_input \<Longrightarrow> mem_best_level (tick ship inp g) = mem_best_level g"
  using handle_events_best [of ship "ticks inp" "events inp" g]
  by (simp add: tick_def Let_def state_logic_best)

lemma abandon_tick:
  assumes "state g = titanic_game_over \<or> state g = memory_game_over"
    and "events inp = [KEYDOWN K_m]"
    and "\<not> move_up_of inp" and "\<not> move_down_of inp"
  shows "state (tick ship inp g) = mode_select" and "score (tick ship inp g) = score g"
  using assms
  by (auto simp: tick_def handle_events_def handle_keydown_def is_restart_key_def
      state_logic_def mode_select_step_def Let_def)


lemma restart_tick:
  assumes "state g = titanic_game_over" and "events inp = [KEYDOWN k]" and "is_restart_key k"
  shows "state (tick ship inp g) = titanic_playing" and "score (tick ship inp g) = 0"
proof -
  define g1 where "g1 = (reset_titanic ship (ticks inp)
      (if k = K_ESCAPE then g\<lparr>running := False\<rparr> else g))\<lparr>state := titanic_playing\<rparr>"
  have h: "handle_events ship (ticks inp) (events inp) g = g1"
    using assms by (simp add: g1_def handle_events_def handle_keydown_def Let_def)
  have f: "state g1 = titanic_playing" "icebergs g1 = []" "score g1 = 0"
    "next_spawn g1 = real_of_int (ticks inp) + 1000" "player g1 = create_player ship"
    "lives_left g1 = 3"
    by (simp_all add: g1_def reset_titanic_def INITIAL_LIVES_def)
  have "rect_h (rect (create_player ship)) \<le> HEIGHT - 2 * PLAYER_MARGIN_TOP_BOTTOM"
    using create_player_rect [of ship] by (simp add: config_defs)
  then have nohit: "\<not> titanic_hit (Player_update u d dt (create_player ship)) []" for u d dt
    using out_of_bounds_after_update [of "create_player ship" u d dt]
    by (simp add: titanic_hit_def)
  have s: "state (titanic_playing_step ship inp u d g1) = titanic_playing
         \<and> score (titanic_playing_step ship inp u d g1) = 0" for u d
    using nohit [of u d "dt_of inp"]
    by (simp add: titanic_playing_step_def titanic_icebergs_moved_def titanic_spawn_due_def Let_def f)
  show "state (tick ship inp g) = titanic_playing" "score (tick ship inp g) = 0"
    using s by (simp_all add: tick_def h state_logic_def f(1) Let_def)
qed

lemma memory_steps_score:
  assumes "state g = memory_ready \<or> state g = memory_show \<or> state g = memory_input
           \<or> state g = memory_success"
  shows "score (tick ship inp g) = score g"
proof -
  obtain b where b: "handle_events ship (ticks inp) (events inp) g = g\<lparr>running := b\<rparr>"
    using handle_events_other [of g ship "ticks inp" "events inp"] assms by auto
  have "score (state_logic ship inp (g\<lparr>running := b\<rparr>)) = score g"
    using assms
    by (auto simp: state_logic_def Let_def memory_ready_step_def memory_show_step_def
        memory_success_step_def memory_input_step_def memory_evaluate_def
        split: option.splits)
  then show ?thesis by (simp add: tick_def b Let_def)
qed

lemma handle_event_score:
  "score (handle_event ship now g e) = score g
   \<or> state (handle_event ship now g e) = titanic_playing"
  by (cases e) (simp_all add: handle_keydown_def reset_titanic_def reset_memory_def Let_def)

lemma handle_events_playing:
  assumes "state g = titanic_playing"
  shows "state (handle_events ship now evs g) = titanic_playing"
proof -
  obtain b where "handle_events ship now evs g = g\<lparr>running := b\<rparr>"
    using handle_events_other [of g ship now evs] assms by auto
  then show ?thesis using assms by simp
qed

lemma handle_events_selector_score:
  "state (handle_events ship now evs g) = mode_select
   \<Longrightarrow> score (handle_events ship now evs g) = score g"
proof (induction evs arbitrary: g)
  case Nil
  then show ?case by (simp add: handle_events_def)
next
  case (Cons e evs)
  let ?g = "handle_event ship now g e"
  have eq: "handle_events ship now (e # evs) g = handle_events ship now evs ?g"
    by (simp add: handle_events_def)
  have m: "state (handle_events ship now evs ?g) = mode_select"
    using Cons.prems by (simp only: eq)
  have "state ?g \<noteq> titanic_playing"
    using handle_events_playing [of ?g ship now evs] m by auto
  then have "score ?g = score g"
    using handle_event_score [of ship now g e] by blast
  then show ?case using Cons.IH [OF m] by (simp only: eq)
qed

lemma tick_selector_score:
  assumes "state (handle_events ship (ticks inp) (events inp) g) = mode_select"
  shows "score (tick ship inp g) = (if move_up_of inp then 0 else score g)"
  using handle_events_selector_score [OF assms]
  by (simp add: tick_after_events_selector [OF assms] mode_select_step_def reset_titanic_def
      reset_memory_def)

lemma memory_input_step_best:
  "mem_best_level (memory_input_step inp pu pd g) = mem_best_level g
   \<or> state (memory_input_step inp pu pd g) = memory_success
   \<or> state (memory_input_step inp pu pd g) = memory_game_over"
  by (simp add: memory_input_step_def memory_step_of_press memory_evaluate_def Let_def)

lemma tick_best_round:
  assumes "mem_best_level (tick ship inp g) \<noteq> mem_best_level g"
  shows "state g = memory_input
       \<and> (state (tick ship inp g) = memory_success \<or> state (tick ship inp g) = memory_game_over)"
proof -
  have i: "state g = memory_input"
    using assms tick_best [of g ship inp] by blast
  obtain b where t: "tick ship inp g =
     (memory_input_step inp (move_up_of inp \<and> \<not> prev_move_up g)
        (move_down_of inp \<and> \<not> prev_move_down g) g)
     \<lparr>running := b, prev_move_up := move_up_of inp, prev_move_down := move_down_of inp\<rparr>"
    using tick_memory_input [OF i] by blast
  show ?thesis
    using assms i
      memory_input_step_best [of inp "move_up_of inp \<and> \<not> prev_move_up g"
        "move_down_of inp \<and> \<not> prev_move_down g" g]
    by (auto simp: t)
qed


lemma selector_after_session_fields:
  "state selector_after_session = mode_select" "score selector_after_session = 7"
  "mem_best_level selector_after_session = 4"
  by (simp_all add: selector_after_session_def initial_game_def)

text \<open>
  Claim C4, as stated, fails.  Committing to the Titanic game from the selector calls
  \<^verbatim>\<open>reset_titanic\<close>, which sets the score to 0: below, the selector holds the score 7 of an
  earlier session, no key event arrives, and the tick with up held leaves the score 0.
\<close>

theorem mode_switch_counterexample:
  "state selector_after_session = mode_select
   \<and> events (key_tick 1000 True False) = []
   \<and> score selector_after_session = 7
   \<and> state (tick (96, 64) (key_tick 1000 True False) selector_after_session) = titanic_menu
   \<and> score (tick (96, 64) (key_tick 1000 True False) selector_after_session) = 0"
  using selector_commit(1) [OF selector_after_session_fields(1),
      where inp = "key_tick 1000 True False" and ship = "(96, 64)"]
  by (simp add: selector_after_session_fields key_tick_fields)

text \<open>
  Claim C4, amended.  A tick changes the best memory level only when it completes an
  input round, ending in \<^verbatim>\<open>memory_success\<close> or \<^verbatim>\<open>memory_game_over\<close>: no mode switch and no
  restart changes it.  On a tick whose state is \<^verbatim>\<open>mode_select\<close> once its events are handled
  (a tick that starts in the selector, or the tick on which the M key abandons a finished
  game) the score is reset to 0 when up is held, as it is by an explicit Titanic restart,
  and is left unchanged when up is not held, whether the tick stays in the selector or
  commits to the memory game; every tick of a running memory game leaves it unchanged.
\<close>

theorem mode_switch_effects:
  "(mem_best_level (tick ship inp g) \<noteq> mem_best_level g
      \<longrightarrow> state g = memory_input
        \<and> (state (tick ship inp g) = memory_success
           \<or> state (tick ship inp g) = memory_game_over))
   \<and> (state g \<noteq> memory_input \<longrightarrow> mem_best_level (tick ship inp g) = mem_best_level g)
   \<and> (state (handle_events ship (ticks inp) (events inp) g) = mode_select
      \<longrightarrow> score (tick ship inp g) = (if move_up_of inp then 0 else score g))
   \<and> (state g = mode_select
      \<longrightarrow> state (handle_events ship (ticks inp) (events inp) g) = mode_select)
   \<and> ((state g = titanic_game_over \<or> state g = memory_game_over) \<and> events inp = [KEYDOWN K_m]
      \<longrightarrow> state (handle_events ship (ticks inp) (events inp) g) = mode_select)
   \<and> (state g = mode_select \<and> move_up_of inp
        \<longrightarrow> state (tick ship inp g) = titanic_menu \<and> score (tick ship inp g) = 0)
   \<and> (state g = mode_select \<and> \<not> move_up_of inp \<longrightarrow> score (tick ship inp g) = score g)
   \<and> ((state g = titanic_game_over \<or> state g = memory_game_over)
        \<and> events inp = [KEYDOWN K_m] \<and> \<not> move_up_of inp \<and> \<not> move_down_of inp
        \<longrightarrow> state (tick ship inp g) = mode_select \<and> score (tick ship inp g) = score g)
   \<and> (state g = titanic_game_over \<and> events inp = [KEYDOWN k] \<and> is_restart_key k
        \<longrightarrow> state (tick ship inp g) = titanic_playing \<and> score (tick ship inp g) = 0)
   \<and> (state g = memory_ready \<or> state g = memory_show \<or> state g = memory_input
        \<or> state g = memory_success
        \<longrightarrow> score (tick ship inp g) = score g)"
proof -
  have 0: "mem_best_level (tick ship inp g) \<noteq> mem_best_level g
      \<longrightarrow> state g = memory_input
        \<and> (state (tick ship inp g) = memory_success
           \<or> state (tick ship inp g) = memory_game_over)"
    using tick_best_round [of ship inp g] by blast
  have 1: "state g \<noteq> memory_input \<longrightarrow> mem_best_level (tick ship inp g) = mem_best_level g"
    by (simp add: tick_best)
  have s: "state (handle_events ship (ticks inp) (events inp) g) = mode_select
      \<longrightarrow> score (tick ship inp g) = (if move_up_of inp then 0 else score g)"
    using tick_selector_score [of ship inp g] by blast
  have e1: "state g = mode_select
      \<longrightarrow> state (handle_events ship (ticks inp) (events inp) g) = mode_select"
    using handle_events_other [of g ship "ticks inp" "events inp"] by auto
  have e2: "(state g = titanic_game_over \<or> state g = memory_game_over)
      \<and> events inp = [KEYDOWN K_m]
      \<longrightarrow> state (handle_events ship (ticks inp) (events inp) g) = mode_select"
    using abandon_events [of g inp ship] by auto
  have 2: "state g = mode_select \<and> move_up_of inp
        \<longrightarrow> state (tick ship inp g) = titanic_menu \<and> score (tick ship inp g) = 0"
    using selector_commit(1) [where g = g and inp = inp and ship = ship] by blast
  have 3: "state g = mode_select \<and> \<not> move_up_of inp \<longrightarrow> score (tick ship inp g) = score g"
    using selector_commit(2,3) [where g = g and inp = inp and ship = ship] by blast
  have 4: "(state g = titanic_game_over \<or> state g = memory_game_over)
        \<and> events inp = [KEYDOWN K_m] \<and> \<not> move_up_of inp \<and> \<not> move_down_of inp
        \<longrightarrow> state (tick ship inp g) = mode_select \<and> score (tick ship inp g) = score g"
    using abandon_tick [where g = g and inp = inp and ship = ship] by blast
  have 5: "state g = titanic_game_over \<and> events inp = [KEYDOWN k] \<and> is_restart_key k
        \<longrightarrow> state (tick ship inp g) = titanic_playing \<and> score (tick ship inp g) = 0"
    using restart_tick [where g = g and inp = inp and ship = ship and k = k] by blast
  have 6: "state g = memory_ready \<or> state g = memory_show \<or> state g = memory_input
        \<or> state g = memory_success
        \<longrightarrow> score (tick ship inp g) = score g"
    using memory_steps_score [where g = g and inp = inp and ship = ship] by blast
  show ?thesis
    by (rule conjI [OF 0 conjI [OF 1 conjI [OF s conjI [OF e1 conjI [OF e2
          conjI [OF 2 conjI [OF 3 conjI [OF 4 conjI [OF 5 6]]]]]]]]])
qed

theorem mode_switch_effects_witness:
  "state selector_after_session = mode_select
   \<and> mem_best_level (tick (96, 64) (key_tick 1000 True False) selector_after_session) = 4
   \<and> score (tick (96, 64) (key_tick 1000 True False) selector_after_session) = 0
   \<and> score (tick (96, 64) (key_tick 1000 False True) selector_after_session) = 7
   \<and> mem_best_level (tick (96, 64) (key_tick 1000 False True) selector_after_session) = 4
   \<and> score game_over_holding = 7
   \<and> score (tick (96, 64) abandon_holding_tick game_over_holding) = 0"
  using mode_switch_effects [of "(96, 64)" "key_tick 1000 True False" selector_after_session K_r]
    mode_switch_effects [of "(96, 64)" "key_tick 1000 False True" selector_after_session K_r]
    mode_switch_effects [of "(96, 64)" abandon_holding_tick game_over_holding K_r]
  by (simp add: selector_after_session_fields key_tick_fields game_over_holding_fields
      abandon_holding_tick_fields)


section \<open>The playing tick of the Titanic game\<close>

lemma collect_stars_maps:
  "map ib_x (fst (collect_stars pr ibs sc)) = map ib_x ibs"
  "map ib_gap (fst (collect_stars pr ibs sc)) = map ib_gap ibs"
  by (induction pr ibs sc rule: collect_stars.induct;
      simp add: case_prod_beta split: option.splits)+

lemma titanic_icebergs_moved_running:
  "titanic_icebergs_moved inp (g\<lparr>running := b\<rparr>) = titanic_icebergs_moved inp g"
  "titanic_spawn_due inp (g\<lparr>running := b\<rparr>) = titanic_spawn_due inp g"
  by (simp_all add: titanic_icebergs_moved_def titanic_spawn_due_def Let_def)

lemma titanic_playing_step_running:
  "titanic_playing_step ship inp u d (g\<lparr>running := b\<rparr>)
     = (titanic_playing_step ship inp u d g)\<lparr>running := b\<rparr>"
proof (cases "titanic_hit (Player_update u d (dt_of inp) (player g)) (titanic_icebergs_moved inp g)")
  case True
  then show ?thesis
    by (simp add: titanic_playing_step_def titanic_icebergs_moved_running Let_def case_prod_beta)
next
  case False
  then show ?thesis
    by (simp add: titanic_playing_step_def titanic_icebergs_moved_running Let_def case_prod_beta)
qed

lemma tick_titanic_playing:
  assumes "state g = titanic_playing"
  shows "\<exists>b. tick ship inp g =
     (titanic_playing_step ship inp (move_up_of inp) (move_down_of inp) g)
     \<lparr>running := b, prev_move_up := move_up_of inp, prev_move_down := move_down_of inp\<rparr>"
proof -
  obtain b where b: "handle_events ship (ticks inp) (events inp) g = g\<lparr>running := b\<rparr>"
    using handle_events_other [of g ship "ticks inp" "events inp"] assms by auto
  show ?thesis
    by (rule exI [of _ b])
       (simp add: tick_def b state_logic_def assms titanic_playing_step_running Let_def)
qed

lemma titanic_playing_step_lives:
  "lives_left (titanic_playing_step ship inp u d g) =
     (if titanic_hit (Player_update u d (dt_of inp) (player g)) (titanic_icebergs_moved inp g)
      then lives_left g - 1 else lives_left g)"
proof (cases "titanic_hit (Player_update u d (dt_of inp) (player g)) (titanic_icebergs_moved inp g)")
  case True
  then show ?thesis by (simp add: titanic_playing_step_def Let_def case_prod_beta)
next
  case False
  then show ?thesis by (simp add: titanic_playing_step_def Let_def case_prod_beta)
qed

lemma titanic_playing_step_no_hit:
  assumes "state g = titanic_playing"
    and "\<not> titanic_hit (Player_update u d (dt_of inp) (player g)) (titanic_icebergs_moved inp g)"
  shows "icebergs (titanic_playing_step ship inp u d g)
           = fst (collect_stars (rect (Player_update u d (dt_of inp) (player g)))
                   (titanic_icebergs_moved inp g) (score g))"
    and "next_spawn (titanic_playing_step ship inp u d g)
           = (if titanic_spawn_due inp g
              then real_of_int (ticks inp + titanic_spawn_interval_ms (compute_level (score g)))
              else next_spawn g)"
    and "player (titanic_playing_step ship inp u d g) = Player_update u d (dt_of inp) (player g)"
    and "state (titanic_playing_step ship inp u d g) = titanic_playing"
  using assms by (simp_all add: titanic_playing_step_def Let_def case_prod_beta)


lemma IcebergPair_update_fun:
  "IcebergPair_update speed dt = (\<lambda>ib. ib\<lparr>ib_x := ib_x ib - speed * dt\<rparr>)"
  by (rule ext) (simp add: IcebergPair_update_def)

lemma titanic_icebergs_moved_spec:
  "titanic_icebergs_moved inp g =
     filter (\<lambda>ib. \<not> is_off_screen ib)
       (map (\<lambda>ib. ib\<lparr>ib_x := ib_x ib
                 - (4.0 + real_of_int (compute_level (score g) - 1) * 0.45) * dt_of inp\<rparr>)
          (if real_of_int (ticks inp) \<ge> next_spawn g
           then icebergs g @ [create_iceberg_pair (rand_gap_y inp)
                                (max 140 (220 - (compute_level (score g) - 1) * 8))
                                (rand_unit inp)]
           else icebergs g))"
  by (simp add: titanic_icebergs_moved_def titanic_spawn_due_def titanic_gap_def
      titanic_speed_def IcebergPair_update_fun Let_def config_defs)

lemma tick_playing_no_hit:
  assumes "state g = titanic_playing"
    and "\<not> titanic_hit (Player_update (move_up_of inp) (move_down_of inp) (dt_of inp) (player g))
            (titanic_icebergs_moved inp g)"
  shows "map ib_x (icebergs (tick ship inp g)) = map ib_x (titanic_icebergs_moved inp g)"
    and "map ib_gap (icebergs (tick ship inp g)) = map ib_gap (titanic_icebergs_moved inp g)"
    and "next_spawn (tick ship inp g)
           = (if real_of_int (ticks inp) \<ge> next_spawn g
              then real_of_int (ticks inp + max 700 (1500 - (compute_level (score g) - 1) * 80))
              else next_spawn g)"
proof -
  obtain b where t: "tick ship inp g =
     (titanic_playing_step ship inp (move_up_of inp) (move_down_of inp) g)
     \<lparr>running := b, prev_move_up := move_up_of inp, prev_move_down := move_down_of inp\<rparr>"
    using tick_titanic_playing [OF assms(1)] by blast
  note n = titanic_playing_step_no_hit [OF assms, of ship]
  show "map ib_x (icebergs (tick ship inp g)) = map ib_x (titanic_icebergs_moved inp g)"
    "map ib_gap (icebergs (tick ship inp g)) = map ib_gap (titanic_icebergs_moved inp g)"
    by (simp_all add: t n(1) collect_stars_maps)
  show "next_spawn (tick ship inp g)
           = (if real_of_int (ticks inp) \<ge> next_spawn g
              then real_of_int (ticks inp + max 700 (1500 - (compute_level (score g) - 1) * 80))
              else next_spawn g)"
    by (simp add: t n(2) titanic_spawn_due_def titanic_spawn_interval_ms_def config_defs)
qed

lemma tick_playing_lives:
  assumes "state g = titanic_playing"
    and "rect_h (rect (player g)) \<le> HEIGHT - 2 * PLAYER_MARGIN_TOP_BOTTOM"
  shows "lives_left (tick ship inp g) =
     (if \<exists>b \<in> set (titanic_icebergs_moved inp g).
            colliderect (collision_rect
               (Player_update (move_up_of inp) (move_down_of inp) (dt_of inp) (player g)))
              (fst (collision_rects b))
          \<or> colliderect (collision_rect
               (Player_update (move_up_of inp) (move_down_of inp) (dt_of inp) (player g)))
              (snd (collision_rects b))
      then lives_left g - 1 else lives_left g)"
proof -
  obtain b where t: "tick ship inp g =
     (titanic_playing_step ship inp (move_up_of inp) (move_down_of inp) g)
     \<lparr>running := b, prev_move_up := move_up_of inp, prev_move_down := move_down_of inp\<rparr>"
    using tick_titanic_playing [OF assms(1)] by blast
  have h: "titanic_hit (Player_update (move_up_of inp) (move_down_of inp) (dt_of inp) (player g))
             (titanic_icebergs_moved inp g)
           \<longleftrightarrow> (\<exists>b \<in> set (titanic_icebergs_moved inp g).
            colliderect (collision_rect
               (Player_update (move_up_of inp) (move_down_of inp) (dt_of inp) (player g)))
              (fst (collision_rects b))
          \<or> colliderect (collision_rect
               (Player_update (move_up_of inp) (move_down_of inp) (dt_of inp) (player g)))
              (snd (collision_rects b)))"
    using out_of_bounds_after_update [OF assms(2)]
    by (simp add: titanic_hit_def iceberg_hit_iff)
  show ?thesis
    by (simp add: t titanic_playing_step_lives h)
qed

lemma titanic_icebergs_moved_width:
  assumes "\<forall>b \<in> set (icebergs g). ib_width b = PIPE_WIDTH"
  shows "\<forall>b \<in> set (titanic_icebergs_moved inp g). ib_width b = PIPE_WIDTH"
  using assms
  by (auto simp: titanic_icebergs_moved_def IcebergPair_update_def create_iceberg_pair_def
      Let_def)


text \<open>
  Claim C7.  For every level from 1 to 10 the three difficulty parameters are
  \<open>max(140, 220 - (L - 1) * 8)\<close>, \<open>4.0 + (L - 1) * 0.45\<close> and
  \<open>max(700, 1500 - (L - 1) * 80)\<close>, the gap at least 140, the speed at least 4.0, and
  at level 2 they are 212, 4.45 and 1420.  A playing tick computes them from the level of
  its score: the icebergs it tests are those of the previous tick, with a new pair of
  that gap when a spawn is due, each moved left by that speed times \<open>dt\<close>, those off
  screen removed; and when no hit occurs, the tick leaves these icebergs in place, with
  their gaps, and sets the next spawn to the clock plus that interval when it spawned.
  The speed is computed in exact arithmetic.
\<close>

theorem difficulty_spec:
  "(1 \<le> L \<and> L \<le> 10 \<longrightarrow>
         titanic_gap L = max 140 (220 - (L - 1) * 8)
       \<and> titanic_speed L = 4.0 + real_of_int (L - 1) * 0.45
       \<and> titanic_spawn_interval_ms L = max 700 (1500 - (L - 1) * 80)
       \<and> titanic_gap L \<ge> 140 \<and> titanic_speed L \<ge> 4.0
       \<and> titanic_gap 2 = 212 \<and> titanic_speed 2 = 4.45 \<and> titanic_spawn_interval_ms 2 = 1420)
   \<and> titanic_icebergs_moved inp g =
        filter (\<lambda>ib. \<not> is_off_screen ib)
          (map (\<lambda>ib. ib\<lparr>ib_x := ib_x ib
                    - (4.0 + real_of_int (compute_level (score g) - 1) * 0.45) * dt_of inp\<rparr>)
             (if real_of_int (ticks inp) \<ge> next_spawn g
              then icebergs g @ [create_iceberg_pair (rand_gap_y inp)
                                   (max 140 (220 - (compute_level (score g) - 1) * 8))
                                   (rand_unit inp)]
              else icebergs g))
   \<and> (state g = titanic_playing
        \<and> \<not> titanic_hit
             (Player_update (move_up_of inp) (move_down_of inp) (dt_of inp) (player g))
             (titanic_icebergs_moved inp g)
      \<longrightarrow> map ib_x (icebergs (tick ship inp g)) = map ib_x (titanic_icebergs_moved inp g)
        \<and> map ib_gap (icebergs (tick ship inp g)) = map ib_gap (titanic_icebergs_moved inp g)
        \<and> next_spawn (tick ship inp g)
            = (if real_of_int (ticks inp) \<ge> next_spawn g
               then real_of_int (ticks inp + max 700 (1500 - (compute_level (score g) - 1) * 80))
               else next_spawn g))"
proof -
  have 1: "1 \<le> L \<and> L \<le> 10 \<longrightarrow>
         titanic_gap L = max 140 (220 - (L - 1) * 8)
       \<and> titanic_speed L = 4.0 + real_of_int (L - 1) * 0.45
       \<and> titanic_spawn_interval_ms L = max 700 (1500 - (L - 1) * 80)
       \<and> titanic_gap L \<ge> 140 \<and> titanic_speed L \<ge> 4.0
       \<and> titanic_gap 2 = 212 \<and> titanic_speed 2 = 4.45 \<and> titanic_spawn_interval_ms 2 = 1420"
    using difficulty_formulas [of L] by blast
  have 2: "titanic_icebergs_moved inp g =
        filter (\<lambda>ib. \<not> is_off_screen ib)
          (map (\<lambda>ib. ib\<lparr>ib_x := ib_x ib
                    - (4.0 + real_of_int (compute_level (score g) - 1) * 0.45) * dt_of inp\<rparr>)
             (if real_of_int (ticks inp) \<ge> next_spawn g
              then icebergs g @ [create_iceberg_pair (rand_gap_y inp)
                                   (max 140 (220 - (compute_level (score g) - 1) * 8))
                                   (rand_unit inp)]
              else icebergs g))"
    by (rule titanic_icebergs_moved_spec)
  have 3: "state g = titanic_playing
        \<and> \<not> titanic_hit
             (Player_update (move_up_of inp) (move_down_of inp) (dt_of inp) (player g))
             (titanic_icebergs_moved inp g)
      \<longrightarrow> map ib_x (icebergs (tick ship inp g)) = map ib_x (titanic_icebergs_moved inp g)
        \<and> map ib_gap (icebergs (tick ship inp g)) = map ib_gap (titanic_icebergs_moved inp g)
        \<and> next_spawn (tick ship inp g)
            = (if real_of_int (ticks inp) \<ge> next_spawn g
               then real_of_int (ticks inp + max 700 (1500 - (compute_level (score g) - 1) * 80))
               else next_spawn g)"
    using tick_playing_no_hit [where g = g and inp = inp and ship = ship] by blast
  show ?thesis by (rule conjI [OF 1 conjI [OF 2 3]])
qed

lemma Player_update_idle: "in_band p \<Longrightarrow> Player_update False False dt p = p"
  by (simp add: Player_update_def player_dy_def py_round_def in_band_def Let_def rect_defs
      config_defs)

lemma in_band_96: "in_band \<lparr>rect = mk_rect 192 238 96 64\<rparr>"
  by (simp add: in_band_def rect_defs config_defs)

lemma level2_fields:
  "state level2_game = titanic_playing" "score level2_game = 5" "icebergs level2_game = []"
  "next_spawn level2_game = 2000" "player level2_game = \<lparr>rect = mk_rect 192 238 96 64\<rparr>"
  by (simp_all add: level2_game_def initial_game_def create_player_96)

lemma key_tick_more:
  "dt_of (key_tick t u d) = 17 / 16.6667" "rand_gap_y (key_tick t u d) = 270"
  "rand_unit (key_tick t u d) = 1 / 2"
  by (simp_all add: key_tick_def dt_of_def)

lemma level2_moved:
  "titanic_icebergs_moved (key_tick 2000 False False) level2_game = [level2_pair]"
  by (simp add: titanic_icebergs_moved_spec level2_fields key_tick_fields key_tick_more
      compute_level_def is_off_screen_def create_iceberg_pair_def level2_pair_def Let_def
      config_defs)

lemma level2_pair_fields:
  "ib_width level2_pair = PIPE_WIDTH" "ib_gap level2_pair = 212"
  "ib_x level2_pair = 1000 - 4.45 * (17 / 16.6667)"
  by (simp_all add: level2_pair_def create_iceberg_pair_def Let_def)

lemma level2_slits:
  "collision_rects level2_pair = (mk_rect 1054 0 1 164, mk_rect 1054 376 1 164)"
  by (simp add: collision_rects_120 [OF level2_pair_fields(1)])
     (simp add: level2_pair_def rects_def create_iceberg_pair_def py_int_def
        Let_def STAR_SIZE_def mk_rect_sel config_defs)

lemma level2_no_hit:
  "\<not> titanic_hit (Player_update False False (dt_of (key_tick 2000 False False))
          \<lparr>rect = mk_rect 192 238 96 64\<rparr>) [level2_pair]"
  by (simp add: Player_update_idle [OF in_band_96] titanic_hit_def out_of_bounds_def
      collision_rect_96 level2_slits colliderect_def mk_rect_sel rect_top_def rect_bottom_def
      config_defs)

theorem difficulty_spec_witness:
  "state level2_game = titanic_playing \<and> compute_level (score level2_game) = 2
   \<and> map ib_gap (icebergs (tick (96, 64) (key_tick 2000 False False) level2_game)) = [212]
   \<and> map ib_x (icebergs (tick (96, 64) (key_tick 2000 False False) level2_game))
       = [1000 - 4.45 * (17 / 16.6667)]
   \<and> next_spawn (tick (96, 64) (key_tick 2000 False False) level2_game) = 3420"
proof -
  have h: "\<not> titanic_hit
       (Player_update (move_up_of (key_tick 2000 False False))
          (move_down_of (key_tick 2000 False False)) (dt_of (key_tick 2000 False False))
          (player level2_game))
       (titanic_icebergs_moved (key_tick 2000 False False) level2_game)"
    using level2_no_hit by (simp add: key_tick_fields level2_fields level2_moved)
  have l: "compute_level (score level2_game) = 2"
    by (simp add: level2_fields compute_level_def)
  show ?thesis
    using difficulty_spec [of 2 "key_tick 2000 False False" level2_game "(96, 64)"] h l
    by (simp add: level2_fields level2_moved level2_pair_fields key_tick_fields)
qed


text \<open>
  Claim C2.  For a pair of the nominal width 120 the two collision rectangles are the
  drawn ones narrowed to width 1, which is \<^verbatim>\<open>int(120 * 0.01)\<close>, at offset 59 of the span of
  120, next to its middle; the player's collision rectangle is its rectangle with a
  fifth of the width and of the height (rounded down) taken off, half on each side.
  After \<^verbatim>\<open>Player.update\<close>, \<^verbatim>\<open>hit\<close> holds exactly when that rectangle collides with a slit
  of some pair, and a player rectangle that lies left or right of the slit is no hit,
  even inside the drawn width.  On a playing tick a life is lost exactly when the
  player's collision rectangle, after its update, collides with a slit of one of the
  icebergs the tick tests, and these all have the nominal width when those of the
  previous tick have.
\<close>

theorem collision_slits:
  assumes "ib_width ib = PIPE_WIDTH"
    and "0 \<le> rect_w (rect p)" and "0 \<le> rect_h (rect p)"
    and "rect_h (rect p) \<le> HEIGHT - 2 * PLAYER_MARGIN_TOP_BOTTOM"
  shows "(rects ib =
           (mk_rect (py_int (ib_x ib)) 0 120 (rect_h (fst (rects ib))),
            mk_rect (py_int (ib_x ib)) (rect_y (snd (rects ib))) 120
              (HEIGHT - rect_y (snd (rects ib))))
       \<and> collision_rects ib =
           (mk_rect (py_int (ib_x ib) + 59) 0 1 (rect_h (fst (rects ib))),
            mk_rect (py_int (ib_x ib) + 59) (rect_y (snd (rects ib))) 1
              (HEIGHT - rect_y (snd (rects ib))))
       \<and> collision_rect p =
           mk_rect (rect_x (rect p) + rect_w (rect p) div 5 div 2)
                   (rect_y (rect p) + rect_h (rect p) div 5 div 2)
                   (rect_w (rect p) - rect_w (rect p) div 5)
                   (rect_h (rect p) - rect_h (rect p) div 5)
       \<and> (titanic_hit (Player_update u d dt p) ibs \<longleftrightarrow>
            (\<exists>b \<in> set ibs.
                colliderect (collision_rect (Player_update u d dt p)) (fst (collision_rects b))
              \<or> colliderect (collision_rect (Player_update u d dt p)) (snd (collision_rects b))))
       \<and> (rect_right (collision_rect p) \<le> py_int (ib_x ib) + 59
            \<or> py_int (ib_x ib) + 60 \<le> rect_left (collision_rect p)
          \<longrightarrow> \<not> iceberg_hit (collision_rect p) [ib]))
     \<and> (state g = titanic_playing \<and> player g = p \<longrightarrow>
          lives_left (tick ship inp g) =
            (if \<exists>b \<in> set (titanic_icebergs_moved inp g).
                   colliderect (collision_rect
                      (Player_update (move_up_of inp) (move_down_of inp) (dt_of inp) p))
                     (fst (collision_rects b))
                 \<or> colliderect (collision_rect
                      (Player_update (move_up_of inp) (move_down_of inp) (dt_of inp) p))
                     (snd (collision_rects b))
             then lives_left g - 1 else lives_left g))
     \<and> ((\<forall>b \<in> set (icebergs g). ib_width b = PIPE_WIDTH)
          \<longrightarrow> (\<forall>b \<in> set (titanic_icebergs_moved inp g). ib_width b = PIPE_WIDTH))"
proof -
  note 1 = collision_geometry [OF assms, of u d dt ibs]
  have 2: "state g = titanic_playing \<and> player g = p \<longrightarrow>
          lives_left (tick ship inp g) =
            (if \<exists>b \<in> set (titanic_icebergs_moved inp g).
                   colliderect (collision_rect
                      (Player_update (move_up_of inp) (move_down_of inp) (dt_of inp) p))
                     (fst (collision_rects b))
                 \<or> colliderect (collision_rect
                      (Player_update (move_up_of inp) (move_down_of inp) (dt_of inp) p))
                     (snd (collision_rects b))
             then lives_left g - 1 else lives_left g)"
  proof
    assume a: "state g = titanic_playing \<and> player g = p"
    then have h: "rect_h (rect (player g)) \<le> HEIGHT - 2 * PLAYER_MARGIN_TOP_BOTTOM"
      using assms(4) by simp
    show "lives_left (tick ship inp g) =
            (if \<exists>b \<in> set (titanic_icebergs_moved inp g).
                   colliderect (collision_rect
                      (Player_update (move_up_of inp) (move_down_of inp) (dt_of inp) p))
                     (fst (collision_rects b))
                 \<or> colliderect (collision_rect
                      (Player_update (move_up_of inp) (move_down_of inp) (dt_of inp) p))
                     (snd (collision_rects b))
             then lives_left g - 1 else lives_left g)"
      using tick_playing_lives [OF conjunct1 [OF a] h, of ship inp] a by simp
  qed
  have 3: "(\<forall>b \<in> set (icebergs g). ib_width b = PIPE_WIDTH)
          \<longrightarrow> (\<forall>b \<in> set (titanic_icebergs_moved inp g). ib_width b = PIPE_WIDTH)"
    using titanic_icebergs_moved_width [of g inp] by blast
  show ?thesis by (rule conjI [OF 1 conjI [OF 2 3]])
qed

lemma playing_with_fields:
  "state (playing_with ibs) = titanic_playing" "score (playing_with ibs) = 0"
  "icebergs (playing_with ibs) = ibs" "next_spawn (playing_with ibs) = 1000"
  "player (playing_with ibs) = \<lparr>rect = mk_rect 192 238 96 64\<rparr>"
  "lives_left (playing_with ibs) = 3"
  by (simp_all add: playing_with_def initial_game_def create_player_96 INITIAL_LIVES_def)

lemma moved_pairs:
  "titanic_icebergs_moved (key_tick 500 False False) (playing_with [far_pair]) = [moved_far]"
  "titanic_icebergs_moved (key_tick 500 False False) (playing_with [near_pair]) = [moved_near]"
  by (simp_all add: titanic_icebergs_moved_spec playing_with_fields key_tick_fields key_tick_more
      compute_level_def is_off_screen_def far_pair_def near_pair_def moved_far_def
      moved_near_def create_iceberg_pair_def Let_def config_defs)

lemma moved_pair_width: "ib_width moved_far = PIPE_WIDTH" "ib_width moved_near = PIPE_WIDTH"
  by (simp_all add: moved_far_def moved_near_def far_pair_def near_pair_def
      create_iceberg_pair_def Let_def)

lemma moved_rects:
  "fst (rects moved_far) = mk_rect 245 0 120 330"
  by (simp add: moved_far_def far_pair_def rects_def create_iceberg_pair_def py_int_def Let_def
      STAR_SIZE_def config_defs)

lemma moved_slits:
  "collision_rects moved_far = (mk_rect 304 0 1 330, mk_rect 304 470 1 70)"
  "collision_rects moved_near = (mk_rect 254 0 1 330, mk_rect 254 470 1 70)"
  by (simp add: collision_rects_120 [OF moved_pair_width(1)],
      simp add: moved_far_def far_pair_def rects_def create_iceberg_pair_def py_int_def Let_def
        STAR_SIZE_def mk_rect_sel config_defs)
     (simp add: collision_rects_120 [OF moved_pair_width(2)],
      simp add: moved_near_def near_pair_def rects_def create_iceberg_pair_def py_int_def
        Let_def STAR_SIZE_def mk_rect_sel config_defs)

lemma moved_collisions:
  "colliderect (mk_rect 201 244 77 52) (mk_rect 245 0 120 330)"
  "\<not> colliderect (mk_rect 201 244 77 52) (mk_rect 304 0 1 330)"
  "\<not> colliderect (mk_rect 201 244 77 52) (mk_rect 304 470 1 70)"
  "colliderect (mk_rect 201 244 77 52) (mk_rect 254 0 1 330)"
  by (simp_all add: colliderect_def mk_rect_sel)

theorem collision_slits_witness:
  "ib_width moved_far = PIPE_WIDTH
   \<and> colliderect (collision_rect \<lparr>rect = mk_rect 192 238 96 64\<rparr>) (fst (rects moved_far))
   \<and> lives_left (playing_with [far_pair]) = 3
   \<and> lives_left (tick (96, 64) (key_tick 500 False False) (playing_with [far_pair])) = 3
   \<and> lives_left (tick (96, 64) (key_tick 500 False False) (playing_with [near_pair])) = 2"
proof -
  have a: "0 \<le> rect_w (rect \<lparr>rect = mk_rect 192 238 96 64\<rparr>)"
    "0 \<le> rect_h (rect \<lparr>rect = mk_rect 192 238 96 64\<rparr>)"
    "rect_h (rect \<lparr>rect = mk_rect 192 238 96 64\<rparr>) \<le> HEIGHT - 2 * PLAYER_MARGIN_TOP_BOTTOM"
    by (simp_all add: mk_rect_sel config_defs)
  note t = collision_slits [OF moved_pair_width(1) a, THEN conjunct2, THEN conjunct1, THEN mp]
  have s: "state (playing_with ibs) = titanic_playing
         \<and> player (playing_with ibs) = \<lparr>rect = mk_rect 192 238 96 64\<rparr>" for ibs
    by (simp add: playing_with_fields)
  have u: "Player_update (move_up_of (key_tick 500 False False))
             (move_down_of (key_tick 500 False False)) (dt_of (key_tick 500 False False))
             \<lparr>rect = mk_rect 192 238 96 64\<rparr> = \<lparr>rect = mk_rect 192 238 96 64\<rparr>"
    by (simp add: key_tick_fields Player_update_idle [OF in_band_96])
  have far: "lives_left (tick (96, 64) (key_tick 500 False False) (playing_with [far_pair])) = 3"
    by (simp add: t [OF s] u moved_pairs collision_rect_96 moved_slits moved_collisions
        playing_with_fields)
  have near: "lives_left (tick (96, 64) (key_tick 500 False False) (playing_with [near_pair])) = 2"
    by (simp add: t [OF s] u moved_pairs collision_rect_96 moved_slits moved_collisions
        playing_with_fields)
  have d: "colliderect (collision_rect \<lparr>rect = mk_rect 192 238 96 64\<rparr>) (fst (rects moved_far))"
    by (simp add: collision_rect_96 moved_rects moved_collisions)
  show ?thesis
    using far near d by (simp add: moved_pair_width playing_with_fields)
qed


end
